theory Spec2Isabelle
  imports Complex_Main
begin

section \<open>Python floats\<close>

text \<open>
  Metric samples, multipliers and percentages are Python floats, that is IEEE 754
  binary64 values. A float is modelled as the real number it denotes or one of the three
  special values. The result of an addition, multiplication or division of finite values
  is the exact result rounded to the nearest binary64 value, ties to even, and an
  infinity when it lies beyond the largest finite value. Comparisons follow IEEE 754 as
  Python exposes them: every ordered comparison with NaN is false. The sign of a zero is
  not kept (no operation here depends on it). Integers of the configuration enter
  comparisons and arithmetic with floats by their value, which is their float for every
  integer of magnitude below \<open>2 ^ 53\<close>.
\<close>

datatype pyfloat = Finite real | PosInf | NegInf | NaN

datatype py_error = ZeroDivisionError

fun py_lt :: "pyfloat \<Rightarrow> pyfloat \<Rightarrow> bool" where
  "py_lt NaN _ = False"
| "py_lt _ NaN = False"
| "py_lt (Finite x) (Finite y) = (x < y)"
| "py_lt (Finite x) PosInf = True"
| "py_lt (Finite x) NegInf = False"
| "py_lt PosInf _ = False"
| "py_lt NegInf NegInf = False"
| "py_lt NegInf _ = True"

definition py_gt :: "pyfloat \<Rightarrow> pyfloat \<Rightarrow> bool" where
  "py_gt a b = py_lt b a"

fun py_eq :: "pyfloat \<Rightarrow> pyfloat \<Rightarrow> bool" where
  "py_eq (Finite x) (Finite y) = (x = y)"
| "py_eq PosInf PosInf = True"
| "py_eq NegInf NegInf = True"
| "py_eq _ _ = False"

definition py_ge :: "pyfloat \<Rightarrow> pyfloat \<Rightarrow> bool" where
  "py_ge a b = (py_gt a b \<or> py_eq a b)"

text \<open>Python's \<^verbatim>\<open>max(a, b)\<close> keeps the first argument unless the second is greater.\<close>

definition py_max :: "pyfloat \<Rightarrow> pyfloat \<Rightarrow> pyfloat" where
  "py_max a b = (if py_gt b a then b else a)"

text \<open>Rounding a real to the nearest integer, ties to the even one.\<close>

definition round_half_even :: "real \<Rightarrow> int" where
  "round_half_even q =
     (let f = \<lfloor>q\<rfloor>; d = q - of_int f
      in if d < 1 / 2 then f else if 1 / 2 < d then f + 1 else if even f then f else f + 1)"

text \<open>The binary exponent \<open>e\<close> of a positive real \<open>x\<close>: \<open>2 ^ e \<le> x < 2 ^ (e + 1)\<close>.\<close>

function binary_exponent :: "real \<Rightarrow> int" where
  "binary_exponent x =
     (if x \<le> 0 then 0
      else if 2 \<le> x then binary_exponent (x / 2) + 1
      else if x < 1 then binary_exponent (2 * x) - 1
      else 0)"
  by pat_completeness auto
termination
proof (relation "measure (\<lambda>x. nat \<bar>\<lfloor>log 2 x\<rfloor>\<bar>)")
  show "wf (measure (\<lambda>x. nat \<bar>\<lfloor>log 2 x\<rfloor>\<bar>))" by simp
next
  fix x :: real
  assume "\<not> x \<le> 0" and "2 \<le> x"
  then have "log 2 (x / 2) = log 2 x - 1" and "1 \<le> log 2 x"
    by (simp_all add: log_divide le_log_iff)
  then have "\<lfloor>log 2 (x / 2)\<rfloor> = \<lfloor>log 2 x\<rfloor> - 1" and "1 \<le> \<lfloor>log 2 x\<rfloor>"
    by (simp_all add: le_floor_iff)
  then have "nat \<bar>\<lfloor>log 2 (x / 2)\<rfloor>\<bar> < nat \<bar>\<lfloor>log 2 x\<rfloor>\<bar>"
    by linarith
  then show "(x / 2, x) \<in> measure (\<lambda>x. nat \<bar>\<lfloor>log 2 x\<rfloor>\<bar>)"
    by (simp only: in_measure)
next
  fix x :: real
  assume "\<not> x \<le> 0" and "\<not> 2 \<le> x" and "x < 1"
  then have "log 2 (2 * x) = log 2 x + 1" and "log 2 x < 0"
    by (simp_all add: log_mult)
  then have "\<lfloor>log 2 (2 * x)\<rfloor> = \<lfloor>log 2 x\<rfloor> + 1" and "\<lfloor>log 2 x\<rfloor> \<le> - 1"
    by (simp_all add: floor_le_iff)
  then have "nat \<bar>\<lfloor>log 2 (2 * x)\<rfloor>\<bar> < nat \<bar>\<lfloor>log 2 x\<rfloor>\<bar>"
    by linarith
  then show "(2 * x, x) \<in> measure (\<lambda>x. nat \<bar>\<lfloor>log 2 x\<rfloor>\<bar>)"
    by (simp only: in_measure)
qed

declare binary_exponent.simps [simp del]

text \<open>
  Rounding to binary64: 53 significant bits, so a value with binary exponent \<open>e\<close> is
  rounded to a multiple of \<open>2 ^ (e - 52)\<close>; below the smallest normal exponent \<open>- 1022\<close> the
  spacing stays \<open>2 ^ (- 1074)\<close>; a result of magnitude \<open>2 ^ 1024\<close> or more is an infinity.
\<close>

definition round_binary64 :: "real \<Rightarrow> pyfloat" where
  "round_binary64 x =
     (if x = 0 then Finite 0
      else
        let e = max (binary_exponent \<bar>x\<bar>) (- 1022);
            ulp = 2 powi (e - 52);
            r = of_int (round_half_even (x / ulp)) * ulp
        in if 2 ^ 1024 \<le> \<bar>r\<bar> then (if 0 < x then PosInf else NegInf) else Finite r)"

fun py_neg :: "pyfloat \<Rightarrow> pyfloat" where
  "py_neg (Finite x) = Finite (- x)"
| "py_neg PosInf = NegInf"
| "py_neg NegInf = PosInf"
| "py_neg NaN = NaN"

fun py_add :: "pyfloat \<Rightarrow> pyfloat \<Rightarrow> pyfloat" where
  "py_add NaN _ = NaN"
| "py_add _ NaN = NaN"
| "py_add (Finite x) (Finite y) = round_binary64 (x + y)"
| "py_add (Finite x) b = b"
| "py_add a (Finite y) = a"
| "py_add PosInf PosInf = PosInf"
| "py_add NegInf NegInf = NegInf"
| "py_add _ _ = NaN"

definition py_sub :: "pyfloat \<Rightarrow> pyfloat \<Rightarrow> pyfloat" where
  "py_sub a b = py_add a (py_neg b)"

text \<open>The sign of a value that is not NaN: \<open>-1\<close>, \<open>0\<close> or \<open>1\<close>.\<close>

fun py_sign :: "pyfloat \<Rightarrow> int" where
  "py_sign (Finite x) = (if x < 0 then - 1 else if x = 0 then 0 else 1)"
| "py_sign PosInf = 1"
| "py_sign NegInf = - 1"
| "py_sign NaN = 0"

definition inf_of_sign :: "int \<Rightarrow> pyfloat" where
  "inf_of_sign s = (if s = 0 then NaN else if 0 < s then PosInf else NegInf)"

fun py_mul :: "pyfloat \<Rightarrow> pyfloat \<Rightarrow> pyfloat" where
  "py_mul NaN _ = NaN"
| "py_mul _ NaN = NaN"
| "py_mul (Finite x) (Finite y) = round_binary64 (x * y)"
| "py_mul a b = inf_of_sign (py_sign a * py_sign b)"

text \<open>
  True division of floats raises \<^verbatim>\<open>ZeroDivisionError\<close> on a zero divisor; a finite value
  divided by an infinity is zero, an infinity divided by an infinity is NaN.
\<close>

fun py_truediv :: "pyfloat \<Rightarrow> pyfloat \<Rightarrow> py_error + pyfloat" where
  "py_truediv a (Finite y) =
     (if y = 0 then Inl ZeroDivisionError
      else case a of
        Finite x \<Rightarrow> Inr (round_binary64 (x / y))
      | NaN \<Rightarrow> Inr NaN
      | _ \<Rightarrow> Inr (inf_of_sign (py_sign a * py_sign (Finite y))))"
| "py_truediv _ NaN = Inr NaN"
| "py_truediv (Finite x) _ = Inr (Finite 0)"
| "py_truediv _ _ = Inr NaN"

definition float_of_int :: "int \<Rightarrow> pyfloat" where
  "float_of_int n = Finite (of_int n)"

section \<open>Configuration\<close>

text \<open>The fields of \<^verbatim>\<open>Config\<close> that detection, counters and alerting read.\<close>

record Config =
  abuse_multiplier :: pyfloat
  warning_multiplier :: pyfloat
  duration_threshold :: int
  warning_duration_threshold :: int
  min_requests_threshold :: int
  min_bytes_threshold :: int
  critical_requests_threshold :: int
  critical_bytes_threshold :: int
  warning_requests_threshold :: int
  warning_bytes_threshold :: int
  minimum_baseline_requests :: int
  minimum_baseline_bytes :: int
  telegram_bot_token :: string
  telegram_chat_id :: string
  ddb_abuse_counter_table :: string
  ddb_sent_alerts_table :: string
  abuse_counter_ttl :: int
  sent_alerts_ttl :: int

text \<open>The dataclass defaults.\<close>

definition default_config :: Config where
  "default_config = \<lparr>
     abuse_multiplier = Finite 3,
     warning_multiplier = Finite 2,
     duration_threshold = 1,
     warning_duration_threshold = 2,
     min_requests_threshold = 1000,
     min_bytes_threshold = 500 * 1024 * 1024,
     critical_requests_threshold = 2500,
     critical_bytes_threshold = 1280 * 1024 * 1024,
     warning_requests_threshold = 1250,
     warning_bytes_threshold = 512 * 1024 * 1024,
     minimum_baseline_requests = 25,
     minimum_baseline_bytes = 25 * 1024 * 1024,
     telegram_bot_token = [],
     telegram_chat_id = [],
     ddb_abuse_counter_table = ''CF_Abuse_Counter'',
     ddb_sent_alerts_table = ''CF_Sent_Alerts'',
     abuse_counter_ttl = 2592000,
     sent_alerts_ttl = 86400 \<rparr>"

section \<open>Threshold evaluation\<close>

text \<open>
  The four wordings of the \<^verbatim>\<open>reason\<close> string; the formatted numbers inside the text are
  not modelled.
\<close>

datatype reason = AbuseDetected | RelativeOnly | AbsoluteOnly | WithinNormalRange

record AbuseEvaluation =
  is_abuse :: bool
  severity :: string
  reason :: reason
  percentage_change :: pyfloat
  meets_critical_threshold :: bool
  meets_warning_threshold :: bool
  meets_absolute_threshold :: bool
  multiplier_level :: pyfloat

text \<open>\<^verbatim>\<open>AbuseDetector._check_threshold\<close>\<close>

definition check_threshold :: "pyfloat \<Rightarrow> pyfloat \<Rightarrow> pyfloat \<Rightarrow> bool" where
  "check_threshold current average multiplier =
     (if py_eq average (Finite 0) then py_gt current (Finite 0)
      else let threshold = py_mul average multiplier in py_gt current threshold)"

text \<open>\<^verbatim>\<open>AbuseDetector._check_absolute_threshold\<close>\<close>

definition check_absolute_threshold :: "Config \<Rightarrow> string \<Rightarrow> pyfloat \<Rightarrow> bool \<times> string" where
  "check_absolute_threshold cfg metric_name current =
     (if metric_name = ''Requests'' then
        (if py_ge current (float_of_int (critical_requests_threshold cfg)) then (True, ''Critical'')
         else if py_ge current (float_of_int (warning_requests_threshold cfg)) then (True, ''Warning'')
         else (False, ''None''))
      else
        (if py_ge current (float_of_int (critical_bytes_threshold cfg)) then (True, ''Critical'')
         else if py_ge current (float_of_int (warning_bytes_threshold cfg)) then (True, ''Warning'')
         else (False, ''None'')))"

text \<open>\<^verbatim>\<open>AbuseDetector._calculate_percentage_change\<close>\<close>

definition calculate_percentage_change ::
  "pyfloat \<Rightarrow> pyfloat \<Rightarrow> pyfloat \<Rightarrow> py_error + pyfloat" where
  "calculate_percentage_change current average minimum_baseline =
     (let baseline = py_max average minimum_baseline in
      if py_eq baseline (Finite 0) then
        Inr (if py_eq current (Finite 0) then Finite 0 else PosInf)
      else
        case py_truediv (py_sub current average) baseline of
          Inl e \<Rightarrow> Inl e
        | Inr q \<Rightarrow> Inr (py_mul q (Finite 100)))"

text \<open>\<^verbatim>\<open>AbuseDetector.evaluate_metric\<close>\<close>

definition evaluate_metric ::
  "Config \<Rightarrow> string \<Rightarrow> pyfloat \<Rightarrow> pyfloat \<Rightarrow> py_error + AbuseEvaluation" where
  "evaluate_metric cfg metric_name current_value avg_value =
     (let minimum_baseline =
            (if metric_name = ''Requests'' then float_of_int (minimum_baseline_requests cfg)
             else float_of_int (minimum_baseline_bytes cfg))
      in case calculate_percentage_change current_value avg_value minimum_baseline of
        Inl e \<Rightarrow> Inl e
      | Inr pct \<Rightarrow>
          let meets_critical = check_threshold current_value avg_value (abuse_multiplier cfg);
              meets_warning = check_threshold current_value avg_value (warning_multiplier cfg);
              (meets_absolute, abs_severity) = check_absolute_threshold cfg metric_name current_value;
              (level, sev) =
                (if meets_critical then (abuse_multiplier cfg, ''Critical'')
                 else if meets_warning then (warning_multiplier cfg, ''Warning'')
                 else (Finite 0, ''None''));
              abuse = ((meets_critical \<or> meets_warning) \<and> meets_absolute);
              why =
                (if abuse then AbuseDetected
                 else if (meets_critical \<or> meets_warning) \<and> \<not> meets_absolute then RelativeOnly
                 else if meets_absolute \<and> \<not> (meets_critical \<or> meets_warning) then AbsoluteOnly
                 else WithinNormalRange)
          in Inr \<lparr> is_abuse = abuse,
                   severity = (if abuse then sev else ''None''),
                   reason = why,
                   percentage_change = pct,
                   meets_critical_threshold = meets_critical,
                   meets_warning_threshold = meets_warning,
                   meets_absolute_threshold = meets_absolute,
                   multiplier_level = level \<rparr>)"

section \<open>Time\<close>

text \<open>
  A UTC \<^verbatim>\<open>datetime\<close> by its fields. Where the source stores or passes the ISO 8601
  rendering of a datetime (\<^verbatim>\<open>LastUpdate\<close>, \<^verbatim>\<open>Alert.timestamp\<close>) and parses it back with
  \<^verbatim>\<open>fromisoformat\<close>, the model keeps the datetime itself.
\<close>

record datetime =
  year :: nat
  month :: nat
  day :: nat
  hour :: nat
  minute :: nat
  second :: nat
  microsecond :: nat

definition digit_char :: "nat \<Rightarrow> char" where
  "digit_char n = ''0123456789'' ! (n mod 10)"

text \<open>Decimal rendering of a natural number, as \<^verbatim>\<open>str\<close> and the \<^verbatim>\<open>d\<close> format give it.\<close>

fun str_nat :: "nat \<Rightarrow> string" where
  "str_nat n = (if n < 10 then [digit_char n] else str_nat (n div 10) @ [digit_char (n mod 10)])"

declare str_nat.simps [simp del]

definition zfill :: "nat \<Rightarrow> string \<Rightarrow> string" where
  "zfill width s = replicate (width - length s) CHR ''0'' @ s"

text \<open>
  \<^verbatim>\<open>strftime('%Y%m%d%H')\<close>: the year in decimal, then month, day and hour zero-padded to
  two digits.
\<close>

definition strftime_YmdH :: "datetime \<Rightarrow> string" where
  "strftime_YmdH d =
     str_nat (year d) @ zfill 2 (str_nat (month d)) @ zfill 2 (str_nat (day d))
       @ zfill 2 (str_nat (hour d))"

text \<open>Days between 1970-01-01 and a date of the proleptic Gregorian calendar.\<close>

definition days_from_civil :: "int \<Rightarrow> int \<Rightarrow> int \<Rightarrow> int" where
  "days_from_civil y m d =
     (let y' = (if m \<le> 2 then y - 1 else y);
          era = y' div 400;
          yoe = y' - era * 400;
          mp = (m + 9) mod 12;
          doy = (153 * mp + 2) div 5 + d - 1;
          doe = yoe * 365 + yoe div 4 - yoe div 100 + doy
      in era * 146097 + doe - 719468)"

text \<open>\<^verbatim>\<open>int(d.timestamp())\<close>: the POSIX time in whole seconds, truncated towards zero.\<close>

definition int_timestamp :: "datetime \<Rightarrow> int" where
  "int_timestamp d =
     (let whole = days_from_civil (int (year d)) (int (month d)) (int (day d)) * 86400
                  + int (hour d) * 3600 + int (minute d) * 60 + int (second d)
      in if whole < 0 \<and> microsecond d \<noteq> 0 then whole + 1 else whole)"

section \<open>The key-value store\<close>

text \<open>
  An item of the counter table (the canonical counter and the window markers share the
  shape) or of the sent-alerts table.
\<close>

datatype item =
    CounterItem string int datetime int
  | SentAlertItem string string string string string pyfloat pyfloat datetime int

text \<open>The value of the table's key attribute (\<^verbatim>\<open>CounterKey\<close> or \<^verbatim>\<open>AlertKey\<close>).\<close>

fun item_key :: "item \<Rightarrow> string" where
  "item_key (CounterItem k _ _ _) = k"
| "item_key (SentAlertItem k _ _ _ _ _ _ _ _) = k"

text \<open>\<^verbatim>\<open>item.get('Count', 0)\<close>\<close>

fun item_get_Count :: "item \<Rightarrow> int" where
  "item_get_Count (CounterItem _ c _ _) = c"
| "item_get_Count (SentAlertItem _ _ _ _ _ _ _ _ _) = 0"

text \<open>
  What one raw call to the service does: it answers, raises a \<^verbatim>\<open>ClientError\<close> with an
  error code, or raises something else.
\<close>

datatype ddb_outcome = Ok | ClientError string | OtherException

datatype ddb_op = GetItem string string | PutItem string string

datatype http_outcome = Status nat | TimeoutError | ConnectionError | OtherError

text \<open>
  The \<^verbatim>\<open>Alert\<close> dataclass. The fields \<^verbatim>\<open>severity\<close>, \<^verbatim>\<open>abuse_multiplier\<close> and
  \<^verbatim>\<open>percentage_change\<close> carry the prefix \<open>alert_\<close> to keep them apart from the fields of
  the same name in \<open>AbuseEvaluation\<close> and \<open>Config\<close>.
\<close>

record Alert =
  account_id :: string
  account_name :: string
  account_email :: string
  distribution_id :: string
  metric :: string
  alert_severity :: string
  current_value :: pyfloat
  history_value :: pyfloat
  alert_abuse_multiplier :: pyfloat
  consecutive_count :: int
  timestamp :: datetime
  alert_percentage_change :: pyfloat

text \<open>
  Everything the detector and the alert manager read and write:
  \<^item> \<open>tables\<close>: the durable store, table name to key to item;
  \<^item> \<open>ddb_responses\<close>: the outcomes of the coming raw calls to the store, in order (every
    call after the last listed one succeeds);
  \<^item> \<open>ddb_calls\<close>: the raw calls issued so far;
  \<^item> \<open>sent_alerts\<close>: \<^verbatim>\<open>AlertManager._sent_alerts\<close>, the in-process set;
  \<^item> \<open>alert_executor\<close>: \<^verbatim>\<open>AlertManager._alert_executor\<close>, \<open>None\<close> until \<^verbatim>\<open>initialize\<close>,
    then the alerts submitted to the pool;
  \<^item> \<open>http_responses\<close>: the outcomes of the coming requests to the notification sink
    (every request after the last listed one is answered with status 200);
  \<^item> \<open>http_calls\<close>: the alerts posted to the sink so far, one entry per request.
\<close>

record system =
  tables :: "string \<Rightarrow> string \<rightharpoonup> item"
  ddb_responses :: "ddb_outcome list"
  ddb_calls :: "ddb_op list"
  sent_alerts :: "string set"
  alert_executor :: "Alert list option"
  http_responses :: "http_outcome list"
  http_calls :: "Alert list"

definition RETRYABLE_ERRORS :: "string set" where
  "RETRYABLE_ERRORS = {''ThrottlingException'', ''ProvisionedThroughputExceededException'',
     ''RequestLimitExceeded'', ''ServiceUnavailable'', ''InternalServerError''}"

fun next_ddb_response :: "ddb_outcome list \<Rightarrow> ddb_outcome \<times> ddb_outcome list" where
  "next_ddb_response [] = (Ok, [])"
| "next_ddb_response (r # rs) = (r, rs)"

text \<open>
  The loop of \<^verbatim>\<open>DynamoDBManager.get_item_with_retry\<close>; the sleep between attempts is
  not modelled.
\<close>

function get_item_loop ::
  "nat \<Rightarrow> nat \<Rightarrow> string \<Rightarrow> string \<Rightarrow> system \<Rightarrow> system \<times> item option" where
  "get_item_loop max_retries attempt table_name key s =
     (if attempt < max_retries then
        (let s' = s\<lparr> ddb_responses := snd (next_ddb_response (ddb_responses s)),
                     ddb_calls := ddb_calls s @ [GetItem table_name key] \<rparr>
         in case fst (next_ddb_response (ddb_responses s)) of
              Ok \<Rightarrow> (s', tables s table_name key)
            | ClientError error_code \<Rightarrow>
                if error_code \<in> RETRYABLE_ERRORS then
                  (if attempt < max_retries - 1
                   then get_item_loop max_retries (attempt + 1) table_name key s'
                   else (s', None))
                else (s', None)
            | OtherException \<Rightarrow> (s', None))
      else (s, None))"
  by pat_completeness auto
termination
  by (relation "measure (\<lambda>(max_retries, attempt, _). max_retries - attempt)") auto

declare get_item_loop.simps [simp del]

definition get_item_with_retry :: "system \<Rightarrow> string \<Rightarrow> string \<Rightarrow> system \<times> item option" where
  "get_item_with_retry s table_name key = get_item_loop 3 0 table_name key s"

text \<open>The loop of \<^verbatim>\<open>DynamoDBManager.put_item_with_retry\<close>.\<close>

function put_item_loop ::
  "nat \<Rightarrow> nat \<Rightarrow> string \<Rightarrow> item \<Rightarrow> system \<Rightarrow> system \<times> bool" where
  "put_item_loop max_retries attempt table_name it s =
     (if attempt < max_retries then
        (let s' = s\<lparr> ddb_responses := snd (next_ddb_response (ddb_responses s)),
                     ddb_calls := ddb_calls s @ [PutItem table_name (item_key it)] \<rparr>
         in case fst (next_ddb_response (ddb_responses s)) of
              Ok \<Rightarrow>
                (s'\<lparr> tables := (tables s)(table_name := (tables s table_name)(item_key it \<mapsto> it)) \<rparr>,
                 True)
            | ClientError error_code \<Rightarrow>
                if error_code \<in> RETRYABLE_ERRORS then
                  (if attempt < max_retries - 1
                   then put_item_loop max_retries (attempt + 1) table_name it s'
                   else (s', False))
                else (s', False)
            | OtherException \<Rightarrow> (s', False))
      else (s, False))"
  by pat_completeness auto
termination
  by (relation "measure (\<lambda>(max_retries, attempt, _). max_retries - attempt)") auto

declare put_item_loop.simps [simp del]

definition put_item_with_retry :: "system \<Rightarrow> string \<Rightarrow> item \<Rightarrow> system \<times> bool" where
  "put_item_with_retry s table_name it = put_item_loop 3 0 table_name it s"

section \<open>The abuse counter\<close>

text \<open>\<^verbatim>\<open>AbuseDetector.get_abuse_counter\<close>\<close>

definition get_abuse_counter :: "Config \<Rightarrow> system \<Rightarrow> string \<Rightarrow> system \<times> int" where
  "get_abuse_counter cfg s key =
     (case get_item_with_retry s (ddb_abuse_counter_table cfg) key of
        (s1, Some it) \<Rightarrow> (s1, item_get_Count it)
      | (s1, None) \<Rightarrow> (s1, 0))"

definition window_key_of :: "string \<Rightarrow> datetime \<Rightarrow> string" where
  "window_key_of key now =
     (let window_minute = (minute now div 15) * 15
      in key @ ''#'' @ strftime_YmdH now @ zfill 2 (str_nat window_minute))"

text \<open>
  \<^verbatim>\<open>AbuseDetector.update_abuse_counter\<close>; \<open>now\<close> is the value that
  \<^verbatim>\<open>datetime.now(timezone.utc)\<close> returns at the start of the call.
\<close>

definition update_abuse_counter ::
  "Config \<Rightarrow> datetime \<Rightarrow> system \<Rightarrow> string \<Rightarrow> bool \<Rightarrow> system \<times> int" where
  "update_abuse_counter cfg now s key abuse =
     (let window_key = window_key_of key now
      in case get_item_with_retry s (ddb_abuse_counter_table cfg) window_key of
           (s1, Some cached_item) \<Rightarrow> (s1, item_get_Count cached_item)
         | (s1, None) \<Rightarrow>
             (case get_abuse_counter cfg s1 key of (s2, current_count) \<Rightarrow>
                let new_count = (if abuse then current_count + 1 else max 0 (current_count - 1));
                    ttl = int_timestamp now + abuse_counter_ttl cfg;
                    main_item = CounterItem key new_count now ttl
                in case put_item_with_retry s2 (ddb_abuse_counter_table cfg) main_item of
                     (s3, success_main) \<Rightarrow>
                       if \<not> success_main then (s3, current_count)
                       else
                         let window_item = CounterItem window_key new_count now ttl
                         in case put_item_with_retry s3 (ddb_abuse_counter_table cfg) window_item of
                              (s4, success_window) \<Rightarrow> (s4, new_count)))"

section \<open>The alert manager\<close>

text \<open>\<^verbatim>\<open>AlertManager.initialize\<close>\<close>

definition initialize :: "system \<Rightarrow> system" where
  "initialize s = (if alert_executor s = None then s\<lparr> alert_executor := Some [] \<rparr> else s)"

text \<open>
  \<^verbatim>\<open>AlertManager.send_alert_async\<close>: the alert joins the tasks handed to the pool, or is
  dropped when the pool was never initialised.
\<close>

definition send_alert_async :: "system \<Rightarrow> Alert \<Rightarrow> system" where
  "send_alert_async s alert =
     (case alert_executor s of
        None \<Rightarrow> s
      | Some submitted \<Rightarrow> s\<lparr> alert_executor := Some (submitted @ [alert]) \<rparr>)"

definition alert_key_of :: "Alert \<Rightarrow> string" where
  "alert_key_of alert =
     account_id alert @ ''#'' @ distribution_id alert @ ''#'' @ metric alert @ ''#''
       @ strftime_YmdH (timestamp alert)"

text \<open>\<^verbatim>\<open>AlertManager._is_duplicate_alert\<close>\<close>

definition is_duplicate_alert :: "Config \<Rightarrow> system \<Rightarrow> Alert \<Rightarrow> system \<times> bool" where
  "is_duplicate_alert cfg s alert =
     (let alert_key = alert_key_of alert
      in if alert_key \<in> sent_alerts s then (s, True)
         else case get_item_with_retry s (ddb_sent_alerts_table cfg) alert_key of
                (s1, Some found) \<Rightarrow> (s1\<lparr> sent_alerts := insert alert_key (sent_alerts s1) \<rparr>, True)
              | (s1, None) \<Rightarrow> (s1, False))"

fun next_http_response :: "http_outcome list \<Rightarrow> http_outcome \<times> http_outcome list" where
  "next_http_response [] = (Status 200, [])"
| "next_http_response (r # rs) = (r, rs)"

text \<open>The retry loop of \<^verbatim>\<open>AlertManager._send_alert\<close>, with \<^verbatim>\<open>max_retries = 2\<close>.\<close>

function send_alert_loop :: "nat \<Rightarrow> nat \<Rightarrow> Alert \<Rightarrow> system \<Rightarrow> system \<times> bool" where
  "send_alert_loop max_retries attempt alert s =
     (if attempt < max_retries + 1 then
        (let s' = s\<lparr> http_responses := snd (next_http_response (http_responses s)),
                     http_calls := http_calls s @ [alert] \<rparr>
         in case fst (next_http_response (http_responses s)) of
              Status code \<Rightarrow>
                if code = 200 then (s', True)
                else if code \<ge> 500 \<and> attempt < max_retries
                  then send_alert_loop max_retries (attempt + 1) alert s'
                else (s', False)
            | TimeoutError \<Rightarrow>
                if attempt < max_retries then send_alert_loop max_retries (attempt + 1) alert s'
                else (s', False)
            | ConnectionError \<Rightarrow>
                if attempt < max_retries then send_alert_loop max_retries (attempt + 1) alert s'
                else (s', False)
            | OtherError \<Rightarrow> (s', False))
      else (s, False))"
  by pat_completeness auto
termination
  by (relation "measure (\<lambda>(max_retries, attempt, _). max_retries + 1 - attempt)") auto

declare send_alert_loop.simps [simp del]

text \<open>\<^verbatim>\<open>AlertManager._send_alert\<close>; the text of the message is not modelled.\<close>

definition send_alert :: "Config \<Rightarrow> system \<Rightarrow> Alert \<Rightarrow> system \<times> bool" where
  "send_alert cfg s alert =
     (if telegram_bot_token cfg = [] \<or> telegram_chat_id cfg = [] then (s, False)
      else send_alert_loop 2 0 alert s)"

text \<open>
  \<^verbatim>\<open>AlertManager._record_sent_alert\<close>; \<open>now\<close> is the clock reading the expiry is computed
  from (the retention added to it in whole seconds). The result of the write is ignored,
  as in the source.
\<close>

definition record_sent_alert :: "Config \<Rightarrow> datetime \<Rightarrow> system \<Rightarrow> Alert \<Rightarrow> system" where
  "record_sent_alert cfg now s alert =
     (let alert_key = alert_key_of alert;
          s1 = s\<lparr> sent_alerts := insert alert_key (sent_alerts s) \<rparr>;
          ttl = int_timestamp now + sent_alerts_ttl cfg;
          it = SentAlertItem alert_key (account_id alert) (distribution_id alert) (metric alert)
                 (alert_severity alert) (current_value alert) (history_value alert)
                 (timestamp alert) ttl
      in fst (put_item_with_retry s1 (ddb_sent_alerts_table cfg) it))"

text \<open>\<^verbatim>\<open>AlertManager._send_alert_with_dedup\<close>\<close>

definition send_alert_with_dedup :: "Config \<Rightarrow> datetime \<Rightarrow> system \<Rightarrow> Alert \<Rightarrow> system \<times> bool" where
  "send_alert_with_dedup cfg now s alert =
     (case is_duplicate_alert cfg s alert of
        (s1, True) \<Rightarrow> (s1, False)
      | (s1, False) \<Rightarrow>
          (case send_alert cfg s1 alert of
             (s2, True) \<Rightarrow> (record_sent_alert cfg now s2 alert, True)
           | (s2, False) \<Rightarrow> (s2, False)))"

section \<open>Processing one distribution\<close>

text \<open>The \<^verbatim>\<open>MetricData\<close> that the metrics collector returns.\<close>

record MetricData =
  current_requests :: pyfloat
  current_bytes :: pyfloat
  avg_requests :: pyfloat
  avg_bytes :: pyfloat

text \<open>\<^verbatim>\<open>DistributionProcessor._should_skip_distribution\<close>\<close>

definition should_skip_distribution :: "Config \<Rightarrow> pyfloat \<Rightarrow> pyfloat \<Rightarrow> bool" where
  "should_skip_distribution cfg cur_requests cur_bytes =
     (let below_requests = py_lt cur_requests (float_of_int (min_requests_threshold cfg));
          below_bytes = py_lt cur_bytes (float_of_int (min_bytes_threshold cfg))
      in below_requests \<and> below_bytes)"

text \<open>The tiered decision inside \<^verbatim>\<open>_process_metric_evaluation\<close>.\<close>

definition should_alert :: "Config \<Rightarrow> AbuseEvaluation \<Rightarrow> int \<Rightarrow> bool" where
  "should_alert cfg evaluation new_count =
     (if is_abuse evaluation then
        (if meets_critical_threshold evaluation then new_count \<ge> duration_threshold cfg
         else if meets_warning_threshold evaluation then new_count \<ge> warning_duration_threshold cfg
         else False)
      else False)"

text \<open>
  \<^verbatim>\<open>DistributionProcessor._process_metric_evaluation\<close>. \<open>now_update\<close> is the clock reading
  of the counter update, \<open>now_alert\<close> the later one stamped on the alert. Log output is not
  modelled.
\<close>

definition process_metric_evaluation ::
  "Config \<Rightarrow> datetime \<Rightarrow> datetime \<Rightarrow> system \<Rightarrow> string \<Rightarrow> string \<Rightarrow> string \<Rightarrow> string \<Rightarrow> string
     \<Rightarrow> AbuseEvaluation \<Rightarrow> pyfloat \<Rightarrow> pyfloat \<Rightarrow> system \<times> int" where
  "process_metric_evaluation cfg now_update now_alert s acct_id acct_name acct_email dist_id
       metric_name evaluation cur_value hist_value =
     (let counter_key = acct_id @ ''#'' @ dist_id @ ''#'' @ metric_name
      in case update_abuse_counter cfg now_update s counter_key (is_abuse evaluation) of
        (s1, new_count) \<Rightarrow>
          if should_alert cfg evaluation new_count then
            (let alert = \<lparr> account_id = acct_id,
                            account_name = acct_name,
                            account_email = acct_email,
                            distribution_id = dist_id,
                            metric = metric_name,
                            alert_severity = severity evaluation,
                            current_value = cur_value,
                            history_value = hist_value,
                            alert_abuse_multiplier = multiplier_level evaluation,
                            consecutive_count = new_count,
                            timestamp = now_alert,
                            alert_percentage_change = percentage_change evaluation \<rparr>
             in (send_alert_async s1 alert, 1))
          else (s1, 0))"

text \<open>
  \<^verbatim>\<open>DistributionProcessor.process_distribution\<close>, from the metrics that
  \<^verbatim>\<open>get_metrics\<close> returned. \<open>t_req\<close> and \<open>t_bytes\<close> are the two clock readings taken while
  each metric is processed. An exception anywhere in the body is caught and turns the
  result into \<open>0\<close>.
\<close>

definition process_distribution ::
  "Config \<Rightarrow> datetime \<times> datetime \<Rightarrow> datetime \<times> datetime \<Rightarrow> system \<Rightarrow> string \<Rightarrow> string \<Rightarrow> string
     \<Rightarrow> string \<Rightarrow> MetricData \<Rightarrow> system \<times> int" where
  "process_distribution cfg t_req t_bytes s acct_id acct_name acct_email dist_id metrics =
     (if should_skip_distribution cfg (current_requests metrics) (current_bytes metrics)
      then (s, 0)
      else
        case evaluate_metric cfg ''Requests'' (current_requests metrics) (avg_requests metrics) of
          Inl e \<Rightarrow> (s, 0)
        | Inr requests_eval \<Rightarrow>
           (case evaluate_metric cfg ''BytesDownloaded'' (current_bytes metrics) (avg_bytes metrics) of
              Inl e \<Rightarrow> (s, 0)
            | Inr bytes_eval \<Rightarrow>
               (case process_metric_evaluation cfg (fst t_req) (snd t_req) s acct_id acct_name
                       acct_email dist_id ''Requests'' requests_eval
                       (current_requests metrics) (avg_requests metrics) of
                  (s1, n1) \<Rightarrow>
                    (case process_metric_evaluation cfg (fst t_bytes) (snd t_bytes) s1 acct_id
                            acct_name acct_email dist_id ''BytesDownloaded'' bytes_eval
                            (current_bytes metrics) (avg_bytes metrics) of
                       (s2, n2) \<Rightarrow> (s2, 0 + n1 + n2)))))"

section \<open>Notions used in the statements\<close>

text \<open>The 15-minute window and the clock hour an instant falls in.\<close>

definition floor_to_15min :: "datetime \<Rightarrow> nat \<times> nat \<times> nat \<times> nat \<times> nat" where
  "floor_to_15min d = (year d, month d, day d, hour d, (minute d div 15) * 15)"

definition floor_to_hour :: "datetime \<Rightarrow> nat \<times> nat \<times> nat \<times> nat" where
  "floor_to_hour d = (year d, month d, day d, hour d)"

text \<open>The fields of a datetime are within the ranges Python allows.\<close>

definition valid_datetime :: "datetime \<Rightarrow> bool" where
  "valid_datetime d =
     (1 \<le> year d \<and> year d \<le> 9999 \<and> 1 \<le> month d \<and> month d \<le> 12 \<and> 1 \<le> day d \<and> day d \<le> 31
      \<and> hour d < 24 \<and> minute d < 60 \<and> second d < 60 \<and> microsecond d < 1000000)"

text \<open>The count stored under a key of the counter table; an absent key counts as 0.\<close>

definition stored_count :: "Config \<Rightarrow> system \<Rightarrow> string \<Rightarrow> int" where
  "stored_count cfg s key =
     (case tables s (ddb_abuse_counter_table cfg) key of
        None \<Rightarrow> 0
      | Some it \<Rightarrow> item_get_Count it)"

text \<open>No stored item carries a negative count.\<close>

definition counts_nonneg :: "system \<Rightarrow> bool" where
  "counts_nonneg s = (\<forall>t k it. tables s t k = Some it \<longrightarrow> 0 \<le> item_get_Count it)"

text \<open>
  A sequence of counter updates, each with its clock reading, key and flag, run one after
  the other; the result lists the counts returned.
\<close>

fun update_sequence ::
  "Config \<Rightarrow> (datetime \<times> string \<times> bool) list \<Rightarrow> system \<Rightarrow> system \<times> int list" where
  "update_sequence cfg [] s = (s, [])"
| "update_sequence cfg ((now, key, abuse) # calls) s =
     (case update_abuse_counter cfg now s key abuse of
        (s1, c) \<Rightarrow> (case update_sequence cfg calls s1 of (s2, cs) \<Rightarrow> (s2, c # cs)))"

section \<open>Example inputs\<close>

text \<open>A system with empty tables, nothing scheduled to fail and nothing sent.\<close>

definition empty_system :: system where
  "empty_system = \<lparr> tables = (\<lambda>t. Map.empty), ddb_responses = [], ddb_calls = [],
     sent_alerts = {}, alert_executor = None, http_responses = [], http_calls = [] \<rparr>"

text \<open>An instant of 5 March 2026, given by its hour and minute.\<close>

definition at_time :: "nat \<Rightarrow> nat \<Rightarrow> datetime" where
  "at_time h m = \<lparr> year = 2026, month = 3, day = 5, hour = h, minute = m, second = 0,
     microsecond = 0 \<rparr>"

text \<open>
  A system whose counter table holds the count \<open>n\<close> under the key
  \<open>''111#E1#Requests''\<close> and whose coming store calls have the outcomes \<open>rs\<close>.
\<close>

definition counter_system :: "int \<Rightarrow> ddb_outcome list \<Rightarrow> system" where
  "counter_system n rs = empty_system
     \<lparr> tables := (\<lambda>t. Map.empty)(''CF_Abuse_Counter'' :=
          [''111#E1#Requests'' \<mapsto> CounterItem ''111#E1#Requests'' n (at_time 9 50) 0]),
       ddb_responses := rs \<rparr>"

text \<open>
  The evaluations of 3000 requests against an average of 500 (critical) and of 2000
  requests against an average of 800 (warning) under the default configuration.
\<close>

definition critical_evaluation :: AbuseEvaluation where
  "critical_evaluation = \<lparr> is_abuse = True, severity = ''Critical'', reason = AbuseDetected,
     percentage_change = Finite 500, meets_critical_threshold = True,
     meets_warning_threshold = True, meets_absolute_threshold = True,
     multiplier_level = Finite 3 \<rparr>"

definition warning_evaluation :: AbuseEvaluation where
  "warning_evaluation = \<lparr> is_abuse = True, severity = ''Warning'', reason = AbuseDetected,
     percentage_change = Finite 150, meets_critical_threshold = False,
     meets_warning_threshold = True, meets_absolute_threshold = True,
     multiplier_level = Finite 2 \<rparr>"

text \<open>The default configuration with a notification sink configured.\<close>

definition telegram_config :: Config where
  "telegram_config = default_config \<lparr> telegram_bot_token := ''token'', telegram_chat_id := ''chat'' \<rparr>"

text \<open>A critical alert for the requests of distribution \<open>E1\<close>, stamped with the instant given.\<close>

definition example_alert :: "datetime \<Rightarrow> Alert" where
  "example_alert t = \<lparr> account_id = ''111'', account_name = ''prod'', account_email = ''ops'',
     distribution_id = ''E1'', metric = ''Requests'', alert_severity = ''Critical'',
     current_value = Finite 3000, history_value = Finite 500, alert_abuse_multiplier = Finite 3,
     consecutive_count = 1, timestamp = t, alert_percentage_change = Finite 500 \<rparr>"

section \<open>Properties of the float arithmetic\<close>

text \<open>The binary exponent is the one that brackets the number between two powers of 2.\<close>

lemma binary_exponent_bounds:
  "0 < x \<Longrightarrow> 2 powi (binary_exponent x) \<le> x \<and> x < 2 powi (binary_exponent x + 1)"
proof (induction x rule: binary_exponent.induct)
  case (1 x)
  show ?case
  proof (cases "2 \<le> x")
    case True
    then have be: "binary_exponent x = binary_exponent (x / 2) + 1"
      using "1.prems" by (subst binary_exponent.simps) simp
    have "2 powi binary_exponent (x / 2) \<le> x / 2 \<and> x / 2 < 2 powi (binary_exponent (x / 2) + 1)"
      using "1.IH"(1) "1.prems" True by simp
    then show ?thesis
      unfolding be by (simp add: power_int_add)
  next
    case False
    show ?thesis
    proof (cases "x < 1")
      case True
      then have be: "binary_exponent x = binary_exponent (2 * x) - 1"
        using "1.prems" False by (subst binary_exponent.simps) simp
      have "2 powi binary_exponent (2 * x) \<le> 2 * x \<and> 2 * x < 2 powi (binary_exponent (2 * x) + 1)"
        using "1.IH"(2) "1.prems" True False by simp
      then show ?thesis
        unfolding be by (simp add: power_int_add power_int_diff)
    next
      case nlt: False
      then have be: "binary_exponent x = 0"
        using "1.prems" False by (subst binary_exponent.simps) simp
      show ?thesis unfolding be using False nlt by simp
    qed
  qed
qed

text \<open>Rounding to an integer moves a number by at most one half and fixes the integers.\<close>

lemma round_half_even_ge: "of_int k \<le> q \<Longrightarrow> k \<le> round_half_even q"
proof -
  assume "of_int k \<le> q"
  then have "k \<le> \<lfloor>q\<rfloor>" by (simp add: le_floor_iff)
  moreover have "\<lfloor>q\<rfloor> \<le> round_half_even q"
    by (simp add: round_half_even_def Let_def)
  ultimately show ?thesis by linarith
qed

lemma round_half_even_near: "\<bar>of_int (round_half_even q) - q\<bar> \<le> 1 / 2"
  unfolding round_half_even_def Let_def by (auto; linarith)

lemma round_half_even_of_int: "round_half_even (of_int k) = k"
  by (simp add: round_half_even_def Let_def)

text \<open>A result beyond the largest finite value is an infinity.\<close>

lemma round_binary64_overflow:
  assumes "2 ^ 1024 \<le> x"
  shows "round_binary64 x = PosInf"
proof -
  have pos: "0 < x" using assms by (smt (verit) zero_less_power)
  define e where "e = max (binary_exponent \<bar>x\<bar>) (- 1022)"
  define ulp :: real where "ulp = 2 powi (e - 52)"
  have b: "2 powi (binary_exponent x) \<le> x" "x < 2 powi (binary_exponent x + 1)"
    using binary_exponent_bounds[OF pos] by simp_all
  have "\<not> binary_exponent x + 1 \<le> 1024"
  proof
    assume "binary_exponent x + 1 \<le> 1024"
    then have "(2::real) powi (binary_exponent x + 1) \<le> 2 powi 1024"
      by (intro power_int_increasing) simp_all
    then show False using assms b(2) by simp
  qed
  then have e: "e = binary_exponent x" "1024 \<le> e"
    using pos by (simp_all add: e_def)
  have ulp_pos: "0 < ulp" by (simp add: ulp_def)
  have "2 powi e / ulp = (2::real) ^ 52"
    by (simp add: ulp_def power_int_diff)
  moreover have "2 powi e / ulp \<le> x / ulp"
    using b(1) ulp_pos e(1) by (simp add: divide_right_mono)
  ultimately have "(2::real) ^ 52 \<le> x / ulp"
    by (simp only:)
  then have "of_int (2 ^ 52) \<le> x / ulp" by simp
  then have "2 ^ 52 \<le> round_half_even (x / ulp)"
    by (rule round_half_even_ge)
  then have "(2::real) ^ 52 \<le> of_int (round_half_even (x / ulp))"
    by (metis of_int_le_iff of_int_numeral of_int_power)
  then have "2 ^ 52 * ulp \<le> of_int (round_half_even (x / ulp)) * ulp"
    using ulp_pos by simp
  moreover have "2 ^ 52 * ulp = 2 powi e"
    by (simp add: ulp_def power_int_diff)
  moreover have "(2::real) powi 1024 \<le> 2 powi e"
    by (intro power_int_increasing) (simp_all add: e(2))
  ultimately have big: "2 ^ 1024 \<le> of_int (round_half_even (x / ulp)) * ulp"
    by simp
  have nn: "0 \<le> of_int (round_half_even (x / ulp)) * ulp"
    using big by (smt (verit) zero_less_power)
  show ?thesis
    using pos big nn unfolding round_binary64_def Let_def e_def[symmetric] ulp_def[symmetric]
    by simp
qed

text \<open>Every integer of magnitude below \<open>2 ^ 53\<close> is a float: rounding leaves it as it is.\<close>

lemma round_binary64_of_int:
  assumes "\<bar>k\<bar> < 2 ^ 53"
  shows "round_binary64 (of_int k) = Finite (of_int k)"
proof (cases "k = 0")
  case True
  then show ?thesis by (simp add: round_binary64_def)
next
  case False
  define x :: real where "x = \<bar>of_int k\<bar>"
  have x1: "1 \<le> x" using False by (simp add: x_def)
  then have pos: "0 < x" by simp
  have lt: "x < 2 ^ 53"
    using assms unfolding x_def by (metis of_int_abs of_int_less_iff of_int_numeral of_int_power)
  have b: "2 powi (binary_exponent x) \<le> x" "x < 2 powi (binary_exponent x + 1)"
    using binary_exponent_bounds[OF pos] by simp_all
  have ge0: "0 \<le> binary_exponent x"
  proof (rule ccontr)
    assume "\<not> 0 \<le> binary_exponent x"
    then have "(2::real) powi (binary_exponent x + 1) \<le> 2 powi 0"
      by (intro power_int_increasing) simp_all
    then show False using b(2) x1 by simp
  qed
  have le52: "binary_exponent x \<le> 52"
  proof (rule ccontr)
    assume "\<not> binary_exponent x \<le> 52"
    then have "(2::real) powi 53 \<le> 2 powi (binary_exponent x)"
      by (intro power_int_increasing) simp_all
    then show False using b(1) lt by simp
  qed
  define n where "n = nat (52 - binary_exponent x)"
  have e: "max (binary_exponent x) (- 1022) = binary_exponent x"
    using ge0 by simp
  have ulp: "(2::real) powi (binary_exponent x - 52) = 1 / 2 ^ n"
  proof -
    have eq: "binary_exponent x - 52 = - int n" using le52 by (simp add: n_def)
    show ?thesis unfolding eq by (simp add: power_int_minus field_simps)
  qed
  have q: "of_int k / (1 / 2 ^ n) = (of_int (k * 2 ^ n) :: real)"
    by simp
  have r: "of_int (round_half_even (of_int k / (1 / 2 ^ n))) * (1 / 2 ^ n) = (of_int k :: real)"
    unfolding q round_half_even_of_int by simp
  have small: "\<not> 2 ^ 1024 \<le> \<bar>of_int k :: real\<bar>"
    using lt unfolding x_def by simp
  show ?thesis
    using False small
    unfolding round_binary64_def Let_def x_def[symmetric] e ulp r
    by simp
qed

text \<open>The rules that compute a rounding at a given number.\<close>

lemmas float_eval = round_binary64_def round_half_even_def binary_exponent.simps power_int_def
  power_one_over

text \<open>The sum of the floats 0.1 and 0.2 is the float 0.30000000000000004.\<close>

lemma py_add_example:
  "py_add (Finite (3602879701896397 / 36028797018963968)) (Finite (3602879701896397 / 18014398509481984))
     = Finite (1351079888211149 / 4503599627370496)"
  by (simp add: float_eval)

section \<open>Properties of the threshold evaluator\<close>

lemma py_truediv_Inl_iff: "(py_truediv a b = Inl e) = (b = Finite 0)"
  by (cases b; cases a; cases e) auto

lemma py_eq_zero_iff: "py_eq b (Finite 0) = (b = Finite 0)"
  by (cases b) auto

text \<open>The guard on a zero baseline keeps the division from ever raising.\<close>

lemma calculate_percentage_change_returns:
  "\<exists>p. calculate_percentage_change c a m = Inr p"
  unfolding calculate_percentage_change_def Let_def
  by (auto split: sum.splits simp: py_truediv_Inl_iff py_eq_zero_iff)

lemma evaluate_metric_returns: "\<exists>e. evaluate_metric cfg m cur avg = Inr e"
proof -
  obtain p where "calculate_percentage_change cur avg
      (if m = ''Requests'' then float_of_int (minimum_baseline_requests cfg)
       else float_of_int (minimum_baseline_bytes cfg)) = Inr p"
    using calculate_percentage_change_returns by blast
  then show ?thesis
    by (simp add: evaluate_metric_def Let_def split: prod.splits)
qed

lemma evaluate_metric_InrD:
  assumes "evaluate_metric cfg m cur avg = Inr e"
  shows "meets_critical_threshold e = check_threshold cur avg (abuse_multiplier cfg)"
    and "meets_warning_threshold e = check_threshold cur avg (warning_multiplier cfg)"
    and "meets_absolute_threshold e = fst (check_absolute_threshold cfg m cur)"
    and "is_abuse e =
           ((meets_critical_threshold e \<or> meets_warning_threshold e) \<and> meets_absolute_threshold e)"
    and "severity e =
           (if is_abuse e then (if meets_critical_threshold e then ''Critical'' else ''Warning'')
            else ''None'')"
    and "multiplier_level e =
           (if meets_critical_threshold e then abuse_multiplier cfg
            else if meets_warning_threshold e then warning_multiplier cfg
            else Finite 0)"
    and "calculate_percentage_change cur avg
           (if m = ''Requests'' then float_of_int (minimum_baseline_requests cfg)
            else float_of_int (minimum_baseline_bytes cfg)) = Inr (percentage_change e)"
  using assms
  by (auto simp: evaluate_metric_def Let_def split: sum.splits prod.splits if_splits)

lemma fst_check_absolute_threshold:
  "fst (check_absolute_threshold cfg m cur) =
     (if m = ''Requests''
      then py_ge cur (float_of_int (critical_requests_threshold cfg))
           \<or> py_ge cur (float_of_int (warning_requests_threshold cfg))
      else py_ge cur (float_of_int (critical_bytes_threshold cfg))
           \<or> py_ge cur (float_of_int (warning_bytes_threshold cfg)))"
  by (simp add: check_absolute_threshold_def)

text \<open>
  On finite values the float comparisons are the comparisons of the reals; the relative
  threshold is the rounded product.
\<close>

lemma check_threshold_Finite:
  "check_threshold (Finite c) (Finite a) (Finite k) =
     (if a = 0 then 0 < c else py_lt (round_binary64 (a * k)) (Finite c))"
  by (simp add: check_threshold_def py_gt_def)

lemma py_ge_Finite: "py_ge (Finite c) (float_of_int n) = (of_int n \<le> c)"
  by (auto simp: py_ge_def py_gt_def float_of_int_def)

lemma py_lt_Finite: "py_lt (Finite c) (float_of_int n) = (c < of_int n)"
  by (simp add: float_of_int_def)

lemmas eval_simps = evaluate_metric_def default_config_def calculate_percentage_change_def
  check_threshold_def check_absolute_threshold_def py_max_def py_gt_def py_ge_def py_sub_def
  float_of_int_def Let_def float_eval

text \<open>
  Claim C2 (dual-threshold conjunction). For every metric name, current value, baseline
  and configuration, \<open>evaluate_metric\<close> returns an evaluation whose \<open>is_abuse\<close> is
  (\<open>meets_critical_threshold\<close> or \<open>meets_warning_threshold\<close>) and
  \<open>meets_absolute_threshold\<close>; the two relative flags are \<open>current > baseline * multiplier\<close>,
  with a zero baseline exceeded by any positive current value, and the absolute flag
  compares the current value with the absolute floors of the metric.
\<close>

theorem dual_threshold_conjunction:
  "\<exists>e. evaluate_metric cfg m cur avg = Inr e
     \<and> is_abuse e = ((meets_critical_threshold e \<or> meets_warning_threshold e)
                      \<and> meets_absolute_threshold e)
     \<and> meets_critical_threshold e =
         (if py_eq avg (Finite 0) then py_gt cur (Finite 0)
          else py_gt cur (py_mul avg (abuse_multiplier cfg)))
     \<and> meets_warning_threshold e =
         (if py_eq avg (Finite 0) then py_gt cur (Finite 0)
          else py_gt cur (py_mul avg (warning_multiplier cfg)))
     \<and> meets_absolute_threshold e =
         (if m = ''Requests''
          then py_ge cur (float_of_int (critical_requests_threshold cfg))
               \<or> py_ge cur (float_of_int (warning_requests_threshold cfg))
          else py_ge cur (float_of_int (critical_bytes_threshold cfg))
               \<or> py_ge cur (float_of_int (warning_bytes_threshold cfg)))"
proof -
  obtain e where e: "evaluate_metric cfg m cur avg = Inr e"
    using evaluate_metric_returns by blast
  show ?thesis
    using evaluate_metric_InrD(1-4)[OF e] e
    by (simp add: check_threshold_def fst_check_absolute_threshold)
qed

text \<open>
  The four combinations of (relative met, absolute met) under the default configuration:
  both, relative only, absolute only, neither.
\<close>

theorem dual_threshold_conjunction_witness:
  "(\<exists>e. evaluate_metric default_config ''Requests'' (Finite 3000) (Finite 500) = Inr e
       \<and> (meets_critical_threshold e \<or> meets_warning_threshold e)
       \<and> meets_absolute_threshold e \<and> is_abuse e)
   \<and> (\<exists>e. evaluate_metric default_config ''Requests'' (Finite 900) (Finite 400) = Inr e
       \<and> (meets_critical_threshold e \<or> meets_warning_threshold e)
       \<and> \<not> meets_absolute_threshold e \<and> \<not> is_abuse e)
   \<and> (\<exists>e. evaluate_metric default_config ''Requests'' (Finite 3000) (Finite 2000) = Inr e
       \<and> \<not> (meets_critical_threshold e \<or> meets_warning_threshold e)
       \<and> meets_absolute_threshold e \<and> \<not> is_abuse e)
   \<and> (\<exists>e. evaluate_metric default_config ''BytesDownloaded'' (Finite 100) (Finite 100) = Inr e
       \<and> \<not> (meets_critical_threshold e \<or> meets_warning_threshold e)
       \<and> \<not> meets_absolute_threshold e \<and> \<not> is_abuse e)"
proof (intro conjI)
  show "\<exists>e. evaluate_metric default_config ''Requests'' (Finite 3000) (Finite 500) = Inr e
       \<and> (meets_critical_threshold e \<or> meets_warning_threshold e)
       \<and> meets_absolute_threshold e \<and> is_abuse e"
    using dual_threshold_conjunction [of default_config "''Requests''" "Finite 3000" "Finite 500"]
    by (auto simp: default_config_def py_gt_def py_ge_def float_of_int_def float_eval)
  show "\<exists>e. evaluate_metric default_config ''Requests'' (Finite 900) (Finite 400) = Inr e
       \<and> (meets_critical_threshold e \<or> meets_warning_threshold e)
       \<and> \<not> meets_absolute_threshold e \<and> \<not> is_abuse e"
    using dual_threshold_conjunction [of default_config "''Requests''" "Finite 900" "Finite 400"]
    by (auto simp: default_config_def py_gt_def py_ge_def float_of_int_def float_eval)
  show "\<exists>e. evaluate_metric default_config ''Requests'' (Finite 3000) (Finite 2000) = Inr e
       \<and> \<not> (meets_critical_threshold e \<or> meets_warning_threshold e)
       \<and> meets_absolute_threshold e \<and> \<not> is_abuse e"
    using dual_threshold_conjunction [of default_config "''Requests''" "Finite 3000" "Finite 2000"]
    by (auto simp: default_config_def py_gt_def py_ge_def float_of_int_def float_eval)
  show "\<exists>e. evaluate_metric default_config ''BytesDownloaded'' (Finite 100) (Finite 100) = Inr e
       \<and> \<not> (meets_critical_threshold e \<or> meets_warning_threshold e)
       \<and> \<not> meets_absolute_threshold e \<and> \<not> is_abuse e"
    using dual_threshold_conjunction
            [of default_config "''BytesDownloaded''" "Finite 100" "Finite 100"]
    by (auto simp: default_config_def py_gt_def py_ge_def float_of_int_def float_eval)
qed

text \<open>
  The relative threshold is the rounded product: with the average 833.6666666666666 the
  product with 3 is 2501 exactly after rounding, so a current value of 2501 does not
  exceed it, while the product of the real numbers lies just below 2501.
\<close>

lemma rounded_threshold_example:
  "\<exists>e. evaluate_metric default_config ''Requests'' (Finite 2501)
          (Finite (7333009549514069 / 8796093022208)) = Inr e
       \<and> \<not> meets_critical_threshold e \<and> meets_warning_threshold e"
  by (simp add: eval_simps)

text \<open>
  Claim C6 as stated fails: with a current value of 900 against a baseline of 100 the
  critical relative threshold is met, yet the absolute floor is not, and the severity
  returned is \<open>''None''\<close>, not \<open>''Critical''\<close>.
\<close>

theorem severity_claim_counterexample:
  "evaluate_metric default_config ''Requests'' (Finite 900) (Finite 100) =
     Inr \<lparr> is_abuse = False, severity = ''None'', reason = RelativeOnly,
           percentage_change = Finite 800, meets_critical_threshold = True,
           meets_warning_threshold = True, meets_absolute_threshold = False,
           multiplier_level = Finite 3 \<rparr>"
  by (simp add: eval_simps)

text \<open>
  Claim C6 (severity assignment), amended. The severity returned is critical when
  \<open>is_abuse\<close> and \<open>meets_critical_threshold\<close> hold, warning when \<open>is_abuse\<close> and
  \<open>meets_warning_threshold\<close> hold without the critical one, and none otherwise, in
  particular whenever \<open>is_abuse\<close> is false. \<open>multiplier_level\<close> is the critical multiplier
  if \<open>meets_critical_threshold\<close>, else the warning multiplier if
  \<open>meets_warning_threshold\<close>, else 0, whatever \<open>is_abuse\<close> is.
\<close>

theorem severity_assignment:
  "\<exists>e. evaluate_metric cfg m cur avg = Inr e
     \<and> severity e =
         (if is_abuse e \<and> meets_critical_threshold e then ''Critical''
          else if is_abuse e \<and> meets_warning_threshold e then ''Warning''
          else ''None'')
     \<and> multiplier_level e =
         (if meets_critical_threshold e then abuse_multiplier cfg
          else if meets_warning_threshold e then warning_multiplier cfg
          else Finite 0)"
proof -
  obtain e where e: "evaluate_metric cfg m cur avg = Inr e"
    using evaluate_metric_returns by blast
  show ?thesis
    using evaluate_metric_InrD(4-6)[OF e] e by auto
qed

theorem severity_assignment_witness:
  "\<exists>e. evaluate_metric default_config ''Requests'' (Finite 2000) (Finite 800) = Inr e
     \<and> is_abuse e \<and> \<not> meets_critical_threshold e \<and> meets_warning_threshold e
     \<and> severity e = ''Warning'' \<and> multiplier_level e = Finite 2"
  using severity_assignment [of default_config "''Requests''" "Finite 2000" "Finite 800"]
  by (auto simp: eval_simps)






text \<open>The same happens with NaN.\<close>

lemma evaluate_metric_NaN_example:
  "evaluate_metric default_config ''BytesDownloaded'' NaN (Finite 10) =
     Inr \<lparr> is_abuse = False, severity = ''None'', reason = WithinNormalRange,
           percentage_change = NaN, meets_critical_threshold = False,
           meets_warning_threshold = False, meets_absolute_threshold = False,
           multiplier_level = Finite 0 \<rparr>"
  by (simp add: eval_simps)



section \<open>Properties of the store operations\<close>

text \<open>
  What a read, a write and a send may change: a read consumes responses and adds its calls
  to the log; a write does the same and, when it succeeds, stores the item under its key;
  a send only touches the responses and the log of the notification sink.
\<close>

lemma get_item_loop_frame:
  "get_item_loop mr att t k s = (s', r) \<Longrightarrow>
     \<exists>rs n. s' = s\<lparr> ddb_responses := rs, ddb_calls := ddb_calls s @ replicate n (GetItem t k) \<rparr>
       \<and> (r = None \<or> r = tables s t k) \<and> (att < mr \<longrightarrow> 0 < n)"
proof (induction mr att t k s arbitrary: s' r rule: get_item_loop.induct)
  case (1 max_retries attempt table_name key s)
  show ?case
  proof (cases "attempt < max_retries")
    case False
    with "1.prems" have "s' = s" "r = None"
      by (simp_all add: get_item_loop.simps)
    then show ?thesis
      using False by (intro exI[of _ "ddb_responses s"] exI[of _ 0]) simp
  next
    case True
    define s1 where "s1 = s\<lparr> ddb_responses := snd (next_ddb_response (ddb_responses s)),
                     ddb_calls := ddb_calls s @ [GetItem table_name key] \<rparr>"
    show ?thesis
    proof (cases "\<exists>code. fst (next_ddb_response (ddb_responses s)) = ClientError code
                    \<and> code \<in> RETRYABLE_ERRORS \<and> attempt < max_retries - 1")
      case False
      with True "1.prems" have "s' = s1" "r = None \<or> r = tables s table_name key"
        by (auto simp: get_item_loop.simps[of max_retries attempt] s1_def Let_def
              split: ddb_outcome.splits if_splits)
      then show ?thesis
        unfolding s1_def
        by (intro exI[of _ "snd (next_ddb_response (ddb_responses s))"] exI[of _ 1]) simp
    next
      case retry: True
      then obtain code where code: "fst (next_ddb_response (ddb_responses s)) = ClientError code"
        "code \<in> RETRYABLE_ERRORS" "attempt < max_retries - 1" by blast
      with True "1.prems"
      have again: "get_item_loop max_retries (attempt + 1) table_name key s1 = (s', r)"
        by (simp add: get_item_loop.simps[of max_retries attempt] s1_def Let_def)
      from "1.IH"[OF True s1_def code again]
      obtain rs n where "s' = s1\<lparr> ddb_responses := rs,
           ddb_calls := ddb_calls s1 @ replicate n (GetItem table_name key) \<rparr>"
         "r = None \<or> r = tables s1 table_name key"
        by blast
      then show ?thesis
        unfolding s1_def
        by (intro exI[of _ rs] exI[of _ "Suc n"]) (simp add: replicate_app_Cons_same)
    qed
  qed
qed

lemma put_item_loop_frame:
  "put_item_loop mr att t it s = (s', ok) \<Longrightarrow>
     \<exists>rs n. s' = s\<lparr> ddb_responses := rs,
                     ddb_calls := ddb_calls s @ replicate n (PutItem t (item_key it)),
                     tables := (if ok then (tables s)(t := (tables s t)(item_key it \<mapsto> it))
                                else tables s) \<rparr>
       \<and> (att < mr \<longrightarrow> 0 < n)"
proof (induction mr att t it s arbitrary: s' ok rule: put_item_loop.induct)
  case (1 max_retries attempt table_name it s)
  show ?case
  proof (cases "attempt < max_retries")
    case False
    with "1.prems" have "s' = s" "\<not> ok"
      by (simp_all add: put_item_loop.simps)
    then show ?thesis
      using False by (intro exI[of _ "ddb_responses s"] exI[of _ 0]) simp
  next
    case True
    define s1 where "s1 = s\<lparr> ddb_responses := snd (next_ddb_response (ddb_responses s)),
                     ddb_calls := ddb_calls s @ [PutItem table_name (item_key it)] \<rparr>"
    show ?thesis
    proof (cases "\<exists>code. fst (next_ddb_response (ddb_responses s)) = ClientError code
                    \<and> code \<in> RETRYABLE_ERRORS \<and> attempt < max_retries - 1")
      case False
      with True "1.prems"
      have "s' = s1\<lparr> tables := (if ok then (tables s)(table_name :=
                      (tables s table_name)(item_key it \<mapsto> it)) else tables s) \<rparr>"
        by (auto simp: put_item_loop.simps[of max_retries attempt] s1_def Let_def
              split: ddb_outcome.splits if_splits)
      then show ?thesis
        unfolding s1_def
        by (intro exI[of _ "snd (next_ddb_response (ddb_responses s))"] exI[of _ 1]) simp
    next
      case retry: True
      then obtain code where code: "fst (next_ddb_response (ddb_responses s)) = ClientError code"
        "code \<in> RETRYABLE_ERRORS" "attempt < max_retries - 1" by blast
      with True "1.prems"
      have again: "put_item_loop max_retries (attempt + 1) table_name it s1 = (s', ok)"
        by (simp add: put_item_loop.simps[of max_retries attempt] s1_def Let_def)
      from "1.IH"[OF True s1_def code again]
      obtain rs n where "s' = s1\<lparr> ddb_responses := rs,
           ddb_calls := ddb_calls s1 @ replicate n (PutItem table_name (item_key it)),
           tables := (if ok then (tables s1)(table_name :=
                      (tables s1 table_name)(item_key it \<mapsto> it)) else tables s1) \<rparr>"
        by blast
      then show ?thesis
        unfolding s1_def
        by (intro exI[of _ rs] exI[of _ "Suc n"]) (simp add: replicate_app_Cons_same)
    qed
  qed
qed

lemma send_alert_loop_frame:
  "send_alert_loop mr att alert s = (s', ok) \<Longrightarrow>
     \<exists>rs n. s' = s\<lparr> http_responses := rs, http_calls := http_calls s @ replicate n alert \<rparr>"
proof (induction "mr + 1 - att" arbitrary: att s s' ok rule: less_induct)
  case less
  show ?case
  proof (cases "att < mr + 1")
    case False
    with less.prems have "s' = s"
      by (simp add: send_alert_loop.simps)
    then show ?thesis
      by (intro exI[of _ "http_responses s"] exI[of _ 0]) simp
  next
    case True
    define s1 where "s1 = s\<lparr> http_responses := snd (next_http_response (http_responses s)),
                     http_calls := http_calls s @ [alert] \<rparr>"
    show ?thesis
    proof (cases "send_alert_loop mr (att + 1) alert s1 = (s', ok)")
      case False
      with True less.prems have "s' = s1"
        by (auto simp: send_alert_loop.simps[of mr att] s1_def Let_def
              split: http_outcome.splits if_splits)
      then show ?thesis
        unfolding s1_def
        by (intro exI[of _ "snd (next_http_response (http_responses s))"] exI[of _ 1]) simp
    next
      case again: True
      have "mr + 1 - (att + 1) < mr + 1 - att"
        using True by simp
      from less.hyps[OF this again]
      obtain rs n where "s' = s1\<lparr> http_responses := rs,
           http_calls := http_calls s1 @ replicate n alert \<rparr>"
        by blast
      then show ?thesis
        unfolding s1_def
        by (intro exI[of _ rs] exI[of _ "Suc n"]) (simp add: replicate_app_Cons_same)
    qed
  qed
qed

lemma get_item_with_retry_frame:
  assumes "get_item_with_retry s t k = (s', r)"
  shows "\<exists>rs n. s' = s\<lparr> ddb_responses := rs, ddb_calls := ddb_calls s @ replicate n (GetItem t k) \<rparr>
       \<and> (r = None \<or> r = tables s t k) \<and> 0 < n"
  using get_item_loop_frame[OF assms[unfolded get_item_with_retry_def]] by auto

lemma put_item_with_retry_frame:
  assumes "put_item_with_retry s t it = (s', ok)"
  shows "\<exists>rs n. s' = s\<lparr> ddb_responses := rs,
                     ddb_calls := ddb_calls s @ replicate n (PutItem t (item_key it)),
                     tables := (if ok then (tables s)(t := (tables s t)(item_key it \<mapsto> it))
                                else tables s) \<rparr> \<and> 0 < n"
  using put_item_loop_frame[OF assms[unfolded put_item_with_retry_def]] by auto

text \<open>With no failure scheduled, a read or a write is a single successful call.\<close>

lemma get_item_with_retry_ok:
  "ddb_responses s = [] \<Longrightarrow>
     get_item_with_retry s t k = (s\<lparr> ddb_calls := ddb_calls s @ [GetItem t k] \<rparr>, tables s t k)"
  by (simp add: get_item_with_retry_def get_item_loop.simps[of 3 0])

lemma put_item_with_retry_ok:
  "ddb_responses s = [] \<Longrightarrow>
     put_item_with_retry s t it =
       (s\<lparr> ddb_calls := ddb_calls s @ [PutItem t (item_key it)],
            tables := (tables s)(t := (tables s t)(item_key it \<mapsto> it)) \<rparr>, True)"
  by (simp add: put_item_with_retry_def put_item_loop.simps[of 3 0])

lemma window_key_neq: "window_key_of key now \<noteq> key"
  by (simp add: window_key_of_def Let_def)

lemma window_key_same_window:
  "floor_to_15min t = floor_to_15min now \<Longrightarrow> window_key_of key t = window_key_of key now"
  by (simp add: floor_to_15min_def window_key_of_def strftime_YmdH_def Let_def)

section \<open>Properties of the abuse counter\<close>

lemma get_abuse_counter_ok:
  "ddb_responses s = [] \<Longrightarrow>
     get_abuse_counter cfg s key =
       (s\<lparr> ddb_calls := ddb_calls s @ [GetItem (ddb_abuse_counter_table cfg) key] \<rparr>,
        stored_count cfg s key)"
  by (simp add: get_abuse_counter_def get_item_with_retry_ok stored_count_def split: option.splits)

lemma update_abuse_counter_hit:
  assumes "get_item_with_retry s (ddb_abuse_counter_table cfg) (window_key_of key now)
             = (s1, Some marker)"
  shows "update_abuse_counter cfg now s key abuse = (s1, item_get_Count marker)"
  using assms by (simp add: update_abuse_counter_def)

lemma update_abuse_counter_miss:
  assumes "get_item_with_retry s (ddb_abuse_counter_table cfg) (window_key_of key now)
             = (s1, None)"
    and "get_abuse_counter cfg s1 key = (s2, current_count)"
    and "put_item_with_retry s2 (ddb_abuse_counter_table cfg)
           (CounterItem key (if abuse then current_count + 1 else max 0 (current_count - 1)) now
              (int_timestamp now + abuse_counter_ttl cfg)) = (s3, success_main)"
  shows "update_abuse_counter cfg now s key abuse =
           (if \<not> success_main then (s3, current_count)
            else (fst (put_item_with_retry s3 (ddb_abuse_counter_table cfg)
                    (CounterItem (window_key_of key now)
                       (if abuse then current_count + 1 else max 0 (current_count - 1)) now
                       (int_timestamp now + abuse_counter_ttl cfg))),
                  if abuse then current_count + 1 else max 0 (current_count - 1)))"
  using assms by (simp add: update_abuse_counter_def Let_def split: prod.splits)

lemma update_abuse_counter_fresh:
  assumes "ddb_responses s = []"
    and "tables s (ddb_abuse_counter_table cfg) (window_key_of key now) = None"
  shows "update_abuse_counter cfg now s key abuse =
     (let tbl = ddb_abuse_counter_table cfg;
          window_key = window_key_of key now;
          new_count = (if abuse then stored_count cfg s key + 1
                       else max 0 (stored_count cfg s key - 1));
          ttl = int_timestamp now + abuse_counter_ttl cfg
      in (s\<lparr> ddb_calls := ddb_calls s @ [GetItem tbl window_key, GetItem tbl key,
                                          PutItem tbl key, PutItem tbl window_key],
              tables := (tables s)(tbl := (tables s tbl)
                           (key \<mapsto> CounterItem key new_count now ttl,
                            window_key \<mapsto> CounterItem window_key new_count now ttl)) \<rparr>,
          new_count))"
  using assms
  by (simp add: update_abuse_counter_def Let_def get_item_with_retry_ok get_abuse_counter_ok
        put_item_with_retry_ok stored_count_def)

lemma update_abuse_counter_marked:
  assumes "ddb_responses s = []"
    and "tables s (ddb_abuse_counter_table cfg) (window_key_of key now) = Some marker"
  shows "update_abuse_counter cfg now s key abuse =
     (s\<lparr> ddb_calls := ddb_calls s
            @ [GetItem (ddb_abuse_counter_table cfg) (window_key_of key now)] \<rparr>,
      item_get_Count marker)"
  using assms by (simp add: update_abuse_counter_def Let_def get_item_with_retry_ok)

lemma update_sequence_same_window:
  assumes "ddb_responses s = []"
    and "tables s (ddb_abuse_counter_table cfg) (window_key_of key now) = Some marker"
    and "\<forall>t\<in>set nows. floor_to_15min t = floor_to_15min now"
  shows "update_sequence cfg (map (\<lambda>t. (t, key, abuse)) nows) s =
     (s\<lparr> ddb_calls := ddb_calls s @ replicate (length nows)
            (GetItem (ddb_abuse_counter_table cfg) (window_key_of key now)) \<rparr>,
      replicate (length nows) (item_get_Count marker))"
  using assms
proof (induction nows arbitrary: s)
  case Nil
  then show ?case by simp
next
  case (Cons t nows)
  have wk: "window_key_of key t = window_key_of key now"
    using Cons.prems(3) by (intro window_key_same_window) simp
  let ?s1 = "s\<lparr> ddb_calls := ddb_calls s
            @ [GetItem (ddb_abuse_counter_table cfg) (window_key_of key now)] \<rparr>"
  have step: "update_abuse_counter cfg t s key abuse = (?s1, item_get_Count marker)"
    using update_abuse_counter_marked[of s cfg key t marker abuse] Cons.prems(1,2) wk by simp
  have rest: "update_sequence cfg (map (\<lambda>t. (t, key, abuse)) nows) ?s1 =
     (?s1\<lparr> ddb_calls := ddb_calls ?s1 @ replicate (length nows)
            (GetItem (ddb_abuse_counter_table cfg) (window_key_of key now)) \<rparr>,
      replicate (length nows) (item_get_Count marker))"
    using Cons.prems by (intro Cons.IH) simp_all
  show ?case
    by (simp add: step rest replicate_app_Cons_same)
qed

text \<open>
  Claim C1 (counter-update idempotency). If the lookup of the window marker of the
  current 15-minute window finds the marker, \<open>update_abuse_counter\<close> returns the count
  stored in it, writes nothing and issues no request but the reads of that marker. Hence,
  when no store operation fails and the window has no marker yet, any number of calls
  with the same key and flag at instants of the same window change the canonical counter
  once, in the first call, and all return the same count: after the two reads and two
  writes of the first call, every later call is a single read of the marker.
\<close>

theorem counter_update_idempotent:
  "(get_item_with_retry s (ddb_abuse_counter_table cfg) (window_key_of key now) = (s1, Some marker)
      \<longrightarrow> update_abuse_counter cfg now s key abuse = (s1, item_get_Count marker)
          \<and> tables s (ddb_abuse_counter_table cfg) (window_key_of key now) = Some marker
          \<and> tables s1 = tables s
          \<and> (\<exists>n. ddb_calls s1 = ddb_calls s
                 @ replicate n (GetItem (ddb_abuse_counter_table cfg) (window_key_of key now))))
   \<and> (ddb_responses s0 = []
       \<and> tables s0 (ddb_abuse_counter_table cfg) (window_key_of key now) = None
       \<and> (\<forall>t\<in>set nows. floor_to_15min t = floor_to_15min now)
      \<longrightarrow> window_key_of key now \<noteq> key
          \<and> update_sequence cfg (map (\<lambda>t. (t, key, abuse)) (now # nows)) s0 =
             (let tbl = ddb_abuse_counter_table cfg;
                  window_key = window_key_of key now;
                  new_count = (if abuse then stored_count cfg s0 key + 1
                               else max 0 (stored_count cfg s0 key - 1));
                  ttl = int_timestamp now + abuse_counter_ttl cfg
              in (s0\<lparr> ddb_calls := ddb_calls s0
                        @ [GetItem tbl window_key, GetItem tbl key,
                           PutItem tbl key, PutItem tbl window_key]
                        @ replicate (length nows) (GetItem tbl window_key),
                      tables := (tables s0)(tbl := (tables s0 tbl)
                                   (key \<mapsto> CounterItem key new_count now ttl,
                                    window_key \<mapsto> CounterItem window_key new_count now ttl)) \<rparr>,
                  replicate (Suc (length nows)) new_count)))"
proof (intro conjI impI)
  assume hit: "get_item_with_retry s (ddb_abuse_counter_table cfg) (window_key_of key now)
                 = (s1, Some marker)"
  show "update_abuse_counter cfg now s key abuse = (s1, item_get_Count marker)"
    using hit by (rule update_abuse_counter_hit)
  from get_item_with_retry_frame[OF hit]
  obtain rs n where fr: "s1 = s\<lparr> ddb_responses := rs, ddb_calls := ddb_calls s
        @ replicate n (GetItem (ddb_abuse_counter_table cfg) (window_key_of key now)) \<rparr>"
      "Some marker = tables s (ddb_abuse_counter_table cfg) (window_key_of key now)"
    by auto
  show "tables s (ddb_abuse_counter_table cfg) (window_key_of key now) = Some marker"
    using fr(2) by simp
  show "tables s1 = tables s"
    using fr(1) by simp
  show "\<exists>n. ddb_calls s1 = ddb_calls s
          @ replicate n (GetItem (ddb_abuse_counter_table cfg) (window_key_of key now))"
    using fr(1) by auto
next
  show "window_key_of key now \<noteq> key"
    by (rule window_key_neq)
next
  assume h: "ddb_responses s0 = []
       \<and> tables s0 (ddb_abuse_counter_table cfg) (window_key_of key now) = None
       \<and> (\<forall>t\<in>set nows. floor_to_15min t = floor_to_15min now)"
  define tbl where "tbl = ddb_abuse_counter_table cfg"
  define wk where "wk = window_key_of key now"
  define nc where "nc = (if abuse then stored_count cfg s0 key + 1
                               else max 0 (stored_count cfg s0 key - 1))"
  define ttl where "ttl = int_timestamp now + abuse_counter_ttl cfg"
  define sa where "sa = s0\<lparr> ddb_calls := ddb_calls s0
                        @ [GetItem tbl wk, GetItem tbl key, PutItem tbl key, PutItem tbl wk],
                      tables := (tables s0)(tbl := (tables s0 tbl)
                                   (key \<mapsto> CounterItem key nc now ttl,
                                    wk \<mapsto> CounterItem wk nc now ttl)) \<rparr>"
  have first: "update_abuse_counter cfg now s0 key abuse = (sa, nc)"
    using update_abuse_counter_fresh[of s0 cfg key now abuse] h
    by (simp add: Let_def sa_def tbl_def wk_def nc_def ttl_def)
  have "ddb_responses sa = []"
    using h by (simp add: sa_def)
  moreover have "tables sa (ddb_abuse_counter_table cfg) (window_key_of key now)
                   = Some (CounterItem wk nc now ttl)"
    by (simp add: sa_def tbl_def wk_def)
  ultimately have rest: "update_sequence cfg (map (\<lambda>t. (t, key, abuse)) nows) sa =
     (sa\<lparr> ddb_calls := ddb_calls sa @ replicate (length nows)
            (GetItem (ddb_abuse_counter_table cfg) (window_key_of key now)) \<rparr>,
      replicate (length nows) (item_get_Count (CounterItem wk nc now ttl)))"
    using h by (intro update_sequence_same_window) simp_all
  show "update_sequence cfg (map (\<lambda>t. (t, key, abuse)) (now # nows)) s0 =
             (let tbl = ddb_abuse_counter_table cfg;
                  window_key = window_key_of key now;
                  new_count = (if abuse then stored_count cfg s0 key + 1
                               else max 0 (stored_count cfg s0 key - 1));
                  ttl = int_timestamp now + abuse_counter_ttl cfg
              in (s0\<lparr> ddb_calls := ddb_calls s0
                        @ [GetItem tbl window_key, GetItem tbl key,
                           PutItem tbl key, PutItem tbl window_key]
                        @ replicate (length nows) (GetItem tbl window_key),
                      tables := (tables s0)(tbl := (tables s0 tbl)
                                   (key \<mapsto> CounterItem key new_count now ttl,
                                    window_key \<mapsto> CounterItem window_key new_count now ttl)) \<rparr>,
                  replicate (Suc (length nows)) new_count))"
    unfolding Let_def tbl_def[symmetric] wk_def[symmetric] nc_def[symmetric] ttl_def[symmetric]
    by (simp add: first rest) (simp add: sa_def tbl_def wk_def)
qed

theorem counter_update_idempotent_witness:
  "update_abuse_counter default_config (at_time 10 20)
      (empty_system \<lparr> tables := (\<lambda>t. Map.empty)(''CF_Abuse_Counter'' :=
         [window_key_of ''111#E1#Requests'' (at_time 10 20) \<mapsto>
            CounterItem (window_key_of ''111#E1#Requests'' (at_time 10 20)) 4 (at_time 10 16) 0]) \<rparr>)
      ''111#E1#Requests'' True
     = (empty_system \<lparr> tables := (\<lambda>t. Map.empty)(''CF_Abuse_Counter'' :=
         [window_key_of ''111#E1#Requests'' (at_time 10 20) \<mapsto>
            CounterItem (window_key_of ''111#E1#Requests'' (at_time 10 20)) 4 (at_time 10 16) 0]),
          ddb_calls := [GetItem ''CF_Abuse_Counter''
                          (window_key_of ''111#E1#Requests'' (at_time 10 20))] \<rparr>, 4)
   \<and> snd (update_sequence default_config
            [(at_time 10 20, ''111#E1#Requests'', True), (at_time 10 25, ''111#E1#Requests'', True),
             (at_time 10 29, ''111#E1#Requests'', True)] empty_system) = [1, 1, 1]
   \<and> ddb_calls (fst (update_sequence default_config
            [(at_time 10 20, ''111#E1#Requests'', True), (at_time 10 25, ''111#E1#Requests'', True),
             (at_time 10 29, ''111#E1#Requests'', True)] empty_system)) =
       [GetItem ''CF_Abuse_Counter'' (window_key_of ''111#E1#Requests'' (at_time 10 20)),
        GetItem ''CF_Abuse_Counter'' ''111#E1#Requests'',
        PutItem ''CF_Abuse_Counter'' ''111#E1#Requests'',
        PutItem ''CF_Abuse_Counter'' (window_key_of ''111#E1#Requests'' (at_time 10 20)),
        GetItem ''CF_Abuse_Counter'' (window_key_of ''111#E1#Requests'' (at_time 10 20)),
        GetItem ''CF_Abuse_Counter'' (window_key_of ''111#E1#Requests'' (at_time 10 20))]"
  using counter_update_idempotent
    [where s = "empty_system \<lparr> tables := (\<lambda>t. Map.empty)(''CF_Abuse_Counter'' :=
         [window_key_of ''111#E1#Requests'' (at_time 10 20) \<mapsto>
            CounterItem (window_key_of ''111#E1#Requests'' (at_time 10 20)) 4 (at_time 10 16) 0]) \<rparr>"
       and cfg = default_config and key = "''111#E1#Requests''" and now = "at_time 10 20"
       and ?s1.0 = "empty_system \<lparr> tables := (\<lambda>t. Map.empty)(''CF_Abuse_Counter'' :=
         [window_key_of ''111#E1#Requests'' (at_time 10 20) \<mapsto>
            CounterItem (window_key_of ''111#E1#Requests'' (at_time 10 20)) 4 (at_time 10 16) 0]),
          ddb_calls := [GetItem ''CF_Abuse_Counter''
                          (window_key_of ''111#E1#Requests'' (at_time 10 20))] \<rparr>"
       and marker = "CounterItem (window_key_of ''111#E1#Requests'' (at_time 10 20)) 4 (at_time 10 16) 0"
       and abuse = True and ?s0.0 = empty_system and nows = "[at_time 10 25, at_time 10 29]"]
  by (simp add: get_item_with_retry_ok empty_system_def default_config_def floor_to_15min_def
        at_time_def stored_count_def Let_def)

text \<open>
  Claim C8 (fail-safe on write failure). When the window marker is not found and the
  counter read gives \<open>current_count\<close>: if the write of the canonical record fails, the
  update returns \<open>current_count\<close> and the tables are as they were; if that write succeeds
  and only the write of the window marker fails, the update still returns the new count,
  and the tables differ from the old ones by the canonical record alone.
\<close>

theorem counter_write_failure:
  "get_item_with_retry s (ddb_abuse_counter_table cfg) (window_key_of key now) = (s1, None)
   \<and> get_abuse_counter cfg s1 key = (s2, current_count)
   \<and> new_count = (if abuse then current_count + 1 else max 0 (current_count - 1))
   \<and> main_item = CounterItem key new_count now (int_timestamp now + abuse_counter_ttl cfg)
   \<and> window_item = CounterItem (window_key_of key now) new_count now
                      (int_timestamp now + abuse_counter_ttl cfg)
   \<longrightarrow>
     (put_item_with_retry s2 (ddb_abuse_counter_table cfg) main_item = (s3, False)
        \<longrightarrow> update_abuse_counter cfg now s key abuse = (s3, current_count)
            \<and> tables s3 = tables s)
   \<and> (put_item_with_retry s2 (ddb_abuse_counter_table cfg) main_item = (s3, True)
        \<and> put_item_with_retry s3 (ddb_abuse_counter_table cfg) window_item = (s4, False)
        \<longrightarrow> update_abuse_counter cfg now s key abuse = (s4, new_count)
            \<and> tables s4 = (tables s)(ddb_abuse_counter_table cfg :=
                  (tables s (ddb_abuse_counter_table cfg))(key \<mapsto> main_item)))"
proof (intro impI conjI; elim conjE)
  assume miss: "get_item_with_retry s (ddb_abuse_counter_table cfg) (window_key_of key now) = (s1, None)"
    and cnt: "get_abuse_counter cfg s1 key = (s2, current_count)"
    and nc: "new_count = (if abuse then current_count + 1 else max 0 (current_count - 1))"
    and mi: "main_item = CounterItem key new_count now (int_timestamp now + abuse_counter_ttl cfg)"
    and fail: "put_item_with_retry s2 (ddb_abuse_counter_table cfg) main_item = (s3, False)"
  show "update_abuse_counter cfg now s key abuse = (s3, current_count)"
    using update_abuse_counter_miss[OF miss cnt fail[unfolded mi nc]] by simp
  have "tables s1 = tables s"
    using get_item_with_retry_frame[OF miss] by auto
  moreover have "tables s2 = tables s1"
    using cnt get_item_with_retry_frame[of s1 "ddb_abuse_counter_table cfg" key]
    by (auto simp: get_abuse_counter_def split: prod.splits option.splits)
  moreover have "tables s3 = tables s2"
    using put_item_with_retry_frame[OF fail] by auto
  ultimately show "tables s3 = tables s" by simp
next
  assume miss: "get_item_with_retry s (ddb_abuse_counter_table cfg) (window_key_of key now) = (s1, None)"
    and cnt: "get_abuse_counter cfg s1 key = (s2, current_count)"
    and nc: "new_count = (if abuse then current_count + 1 else max 0 (current_count - 1))"
    and mi: "main_item = CounterItem key new_count now (int_timestamp now + abuse_counter_ttl cfg)"
    and wi: "window_item = CounterItem (window_key_of key now) new_count now
                      (int_timestamp now + abuse_counter_ttl cfg)"
    and ok: "put_item_with_retry s2 (ddb_abuse_counter_table cfg) main_item = (s3, True)"
    and fail: "put_item_with_retry s3 (ddb_abuse_counter_table cfg) window_item = (s4, False)"
  show "update_abuse_counter cfg now s key abuse = (s4, new_count)"
    using update_abuse_counter_miss[OF miss cnt ok[unfolded mi nc]] fail[unfolded wi nc]
    by (simp add: nc)
  have "tables s1 = tables s"
    using get_item_with_retry_frame[OF miss] by auto
  moreover have "tables s2 = tables s1"
    using cnt get_item_with_retry_frame[of s1 "ddb_abuse_counter_table cfg" key]
    by (auto simp: get_abuse_counter_def split: prod.splits option.splits)
  moreover have "tables s3 = (tables s2)(ddb_abuse_counter_table cfg :=
                  (tables s2 (ddb_abuse_counter_table cfg))(key \<mapsto> main_item))"
    using put_item_with_retry_frame[OF ok] by (auto simp: mi)
  moreover have "tables s4 = tables s3"
    using put_item_with_retry_frame[OF fail] by auto
  ultimately show "tables s4 = (tables s)(ddb_abuse_counter_table cfg :=
                  (tables s (ddb_abuse_counter_table cfg))(key \<mapsto> main_item))" by simp
qed

lemma counts_nonneg_frame [simp]:
  "counts_nonneg (s\<lparr> ddb_responses := rs \<rparr>) = counts_nonneg s"
  "counts_nonneg (s\<lparr> ddb_calls := cs \<rparr>) = counts_nonneg s"
  by (simp_all add: counts_nonneg_def)

lemma counts_nonneg_put:
  "counts_nonneg s \<Longrightarrow> 0 \<le> item_get_Count it \<Longrightarrow>
     counts_nonneg (s\<lparr> tables := (tables s)(t := (tables s t)(k \<mapsto> it)) \<rparr>)"
  by (auto simp: counts_nonneg_def)

lemma get_item_with_retry_nonneg:
  assumes "counts_nonneg s" and "get_item_with_retry s t k = (s', r)"
  shows "counts_nonneg s' \<and> (\<forall>it. r = Some it \<longrightarrow> 0 \<le> item_get_Count it)"
proof -
  from get_item_with_retry_frame[OF assms(2)]
  obtain rs n where "s' = s\<lparr> ddb_responses := rs,
      ddb_calls := ddb_calls s @ replicate n (GetItem t k) \<rparr>" "r = None \<or> r = tables s t k"
    by blast
  then show ?thesis
    using assms(1) by (auto simp: counts_nonneg_def)
qed

lemma put_item_with_retry_nonneg:
  assumes "counts_nonneg s" and "0 \<le> item_get_Count it"
    and "put_item_with_retry s t it = (s', ok)"
  shows "counts_nonneg s'"
proof -
  from put_item_with_retry_frame[OF assms(3)]
  obtain rs n where "s' = s\<lparr> ddb_responses := rs,
                     ddb_calls := ddb_calls s @ replicate n (PutItem t (item_key it)),
                     tables := (if ok then (tables s)(t := (tables s t)(item_key it \<mapsto> it))
                                else tables s) \<rparr>"
    by blast
  then show ?thesis
    using assms(1,2) by (auto simp: counts_nonneg_def)
qed

lemma get_abuse_counter_nonneg:
  assumes "counts_nonneg s" and "get_abuse_counter cfg s key = (s', c)"
  shows "counts_nonneg s' \<and> 0 \<le> c"
  using assms get_item_with_retry_nonneg[of s "ddb_abuse_counter_table cfg" key]
  by (auto simp: get_abuse_counter_def split: prod.splits option.splits)

lemma update_abuse_counter_nonneg:
  assumes inv: "counts_nonneg s" and upd: "update_abuse_counter cfg now s key abuse = (s', c)"
  shows "counts_nonneg s' \<and> 0 \<le> c"
proof -
  obtain s1 cached where g: "get_item_with_retry s (ddb_abuse_counter_table cfg)
      (window_key_of key now) = (s1, cached)"
    by (cases "get_item_with_retry s (ddb_abuse_counter_table cfg) (window_key_of key now)")
  note g1 = get_item_with_retry_nonneg[OF inv g]
  show ?thesis
  proof (cases cached)
    case (Some marker)
    with g have "update_abuse_counter cfg now s key abuse = (s1, item_get_Count marker)"
      by (simp add: update_abuse_counter_hit)
    with upd g1 Some show ?thesis by auto
  next
    case None
    obtain s2 cur where c: "get_abuse_counter cfg s1 key = (s2, cur)"
      by (cases "get_abuse_counter cfg s1 key")
    note c1 = get_abuse_counter_nonneg[OF conjunct1[OF g1] c]
    define nc where "nc = (if abuse then cur + 1 else max 0 (cur - 1))"
    have nc0: "0 \<le> nc" using c1 by (simp add: nc_def)
    define ttl where "ttl = int_timestamp now + abuse_counter_ttl cfg"
    obtain s3 ok where p: "put_item_with_retry s2 (ddb_abuse_counter_table cfg)
        (CounterItem key nc now ttl) = (s3, ok)"
      by (cases "put_item_with_retry s2 (ddb_abuse_counter_table cfg) (CounterItem key nc now ttl)")
    have inv3: "counts_nonneg s3"
      using put_item_with_retry_nonneg[OF conjunct1[OF c1] _ p] nc0 by simp
    obtain s4 ok' where q: "put_item_with_retry s3 (ddb_abuse_counter_table cfg)
        (CounterItem (window_key_of key now) nc now ttl) = (s4, ok')"
      by (cases "put_item_with_retry s3 (ddb_abuse_counter_table cfg)
                   (CounterItem (window_key_of key now) nc now ttl)")
    have inv4: "counts_nonneg s4"
      using put_item_with_retry_nonneg[OF inv3 _ q] nc0 by simp
    have "update_abuse_counter cfg now s key abuse = (if \<not> ok then (s3, cur) else (s4, nc))"
      using update_abuse_counter_miss[OF g[unfolded None] c p[unfolded nc_def ttl_def]] q
      by (simp add: nc_def ttl_def)
    with upd inv3 inv4 nc0 c1 show ?thesis
      by (auto split: if_splits)
  qed
qed

lemma update_sequence_nonneg:
  assumes "counts_nonneg s" and "update_sequence cfg calls s = (s', cs)"
  shows "counts_nonneg s' \<and> (\<forall>c\<in>set cs. 0 \<le> c)"
  using assms
proof (induction calls arbitrary: s s' cs)
  case Nil
  then show ?case by simp
next
  case (Cons call calls)
  obtain now key abuse where call: "call = (now, key, abuse)"
    by (cases call)
  obtain s1 c where u: "update_abuse_counter cfg now s key abuse = (s1, c)"
    by (cases "update_abuse_counter cfg now s key abuse")
  obtain s2 cs' where r: "update_sequence cfg calls s1 = (s2, cs')"
    by (cases "update_sequence cfg calls s1")
  from Cons.prems(2) call u r have eq: "s' = s2" "cs = c # cs'"
    by simp_all
  from update_abuse_counter_nonneg[OF Cons.prems(1) u] Cons.IH[OF _ r] eq
  show ?case by simp
qed

text \<open>
  Claim C3 (counter non-negativity). Starting from a store without negative counts, every
  count returned along any sequence of updates, whatever the keys, flags, clock readings
  and store failures, is non-negative, no negative count is ever stored, and every later
  read of a counter is non-negative. When nothing fails and the window has no marker, the
  update computes \<open>count + 1\<close> for an abusive sample and \<open>max 0 (count - 1)\<close> otherwise from
  the stored count (0 for an absent key), returns it and stores it.
\<close>

theorem counter_non_negative:
  "(counts_nonneg s \<and> update_sequence cfg calls s = (s', cs)
      \<longrightarrow> (\<forall>c\<in>set cs. 0 \<le> c) \<and> counts_nonneg s'
          \<and> (\<forall>key. 0 \<le> snd (get_abuse_counter cfg s' key)))
   \<and> (ddb_responses s0 = []
       \<and> tables s0 (ddb_abuse_counter_table cfg) (window_key_of key0 now) = None
      \<longrightarrow> snd (update_abuse_counter cfg now s0 key0 abuse) =
            (if abuse then stored_count cfg s0 key0 + 1 else max 0 (stored_count cfg s0 key0 - 1))
          \<and> stored_count cfg (fst (update_abuse_counter cfg now s0 key0 abuse)) key0 =
            (if abuse then stored_count cfg s0 key0 + 1 else max 0 (stored_count cfg s0 key0 - 1)))"
proof (intro conjI impI allI; (elim conjE)?)
  assume inv: "counts_nonneg s" and run: "update_sequence cfg calls s = (s', cs)"
  from update_sequence_nonneg[OF inv run]
  show "\<forall>c\<in>set cs. 0 \<le> c" and inv': "counts_nonneg s'"
    by simp_all
  fix key
  show "0 \<le> snd (get_abuse_counter cfg s' key)"
    using get_abuse_counter_nonneg[OF inv', of cfg key]
    by (cases "get_abuse_counter cfg s' key") simp
next
  assume "ddb_responses s0 = []"
    and "tables s0 (ddb_abuse_counter_table cfg) (window_key_of key0 now) = None"
  then have fresh: "update_abuse_counter cfg now s0 key0 abuse =
     (let tbl = ddb_abuse_counter_table cfg;
          window_key = window_key_of key0 now;
          new_count = (if abuse then stored_count cfg s0 key0 + 1
                       else max 0 (stored_count cfg s0 key0 - 1));
          ttl = int_timestamp now + abuse_counter_ttl cfg
      in (s0\<lparr> ddb_calls := ddb_calls s0 @ [GetItem tbl window_key, GetItem tbl key0,
                                          PutItem tbl key0, PutItem tbl window_key],
              tables := (tables s0)(tbl := (tables s0 tbl)
                           (key0 \<mapsto> CounterItem key0 new_count now ttl,
                            window_key \<mapsto> CounterItem window_key new_count now ttl)) \<rparr>,
          new_count))"
    by (rule update_abuse_counter_fresh)
  show "snd (update_abuse_counter cfg now s0 key0 abuse) =
            (if abuse then stored_count cfg s0 key0 + 1 else max 0 (stored_count cfg s0 key0 - 1))"
    by (simp add: fresh Let_def)
  show "stored_count cfg (fst (update_abuse_counter cfg now s0 key0 abuse)) key0 =
            (if abuse then stored_count cfg s0 key0 + 1 else max 0 (stored_count cfg s0 key0 - 1))"
    using window_key_neq[of key0 now]
    by (simp add: fresh Let_def stored_count_def)
qed

lemmas store_eval = get_item_with_retry_def put_item_with_retry_def get_item_loop.simps
  put_item_loop.simps get_abuse_counter_def update_abuse_counter_def RETRYABLE_ERRORS_def
  counter_system_def empty_system_def default_config_def Let_def

lemmas key_eval = window_key_of_def strftime_YmdH_def str_nat.simps zfill_def digit_char_def
  at_time_def

theorem counter_non_negative_witness:
  "counts_nonneg (counter_system 1 [])
   \<and> snd (update_sequence default_config
            [(at_time 10 0, ''111#E1#Requests'', False), (at_time 10 15, ''111#E1#Requests'', False),
             (at_time 10 30, ''111#E1#Requests'', False), (at_time 10 45, ''111#E1#Requests'', True)]
            (counter_system 1 [])) = [0, 0, 0, 1]
   \<and> counts_nonneg (fst (update_sequence default_config
            [(at_time 10 0, ''111#E1#Requests'', False), (at_time 10 15, ''111#E1#Requests'', False),
             (at_time 10 30, ''111#E1#Requests'', False), (at_time 10 45, ''111#E1#Requests'', True)]
            (counter_system 1 [])))
   \<and> snd (update_abuse_counter default_config (at_time 10 0) (counter_system 0 [])
            ''111#E1#Requests'' False) = 0"
proof -
  let ?calls = "[(at_time 10 0, ''111#E1#Requests'', False), (at_time 10 15, ''111#E1#Requests'', False),
             (at_time 10 30, ''111#E1#Requests'', False), (at_time 10 45, ''111#E1#Requests'', True)]"
  have inv: "counts_nonneg (counter_system 1 [])"
    by (auto simp: counts_nonneg_def counter_system_def empty_system_def split: if_splits)
  have run: "snd (update_sequence default_config ?calls (counter_system 1 [])) = [0, 0, 0, 1]"
    by (simp add: store_eval key_eval)
  have quiet: "ddb_responses (counter_system 0 []) = []"
    and none: "tables (counter_system 0 []) (ddb_abuse_counter_table default_config)
                 (window_key_of ''111#E1#Requests'' (at_time 10 0)) = None"
    and zero: "stored_count default_config (counter_system 0 []) ''111#E1#Requests'' = 0"
    using window_key_neq[of "''111#E1#Requests''" "at_time 10 0"]
    by (simp_all add: counter_system_def empty_system_def default_config_def stored_count_def)
  from counter_non_negative
         [where s = "counter_system 1 []" and cfg = default_config and calls = ?calls
            and s' = "fst (update_sequence default_config ?calls (counter_system 1 []))"
            and cs = "snd (update_sequence default_config ?calls (counter_system 1 []))"
            and ?s0.0 = "counter_system 0 []" and ?key0.0 = "''111#E1#Requests''"
            and now = "at_time 10 0" and abuse = False]
  show ?thesis
    using inv run quiet none zero by simp
qed

theorem counter_write_failure_witness:
  "snd (update_abuse_counter default_config (at_time 10 20)
          (counter_system 3 [Ok, Ok, ClientError ''AccessDeniedException''])
          ''111#E1#Requests'' True) = 3
   \<and> tables (fst (update_abuse_counter default_config (at_time 10 20)
          (counter_system 3 [Ok, Ok, ClientError ''AccessDeniedException''])
          ''111#E1#Requests'' True)) = tables (counter_system 3 [])
   \<and> snd (update_abuse_counter default_config (at_time 10 20)
          (counter_system 3 [Ok, Ok, Ok, OtherException])
          ''111#E1#Requests'' True) = 4
   \<and> stored_count default_config (fst (update_abuse_counter default_config (at_time 10 20)
          (counter_system 3 [Ok, Ok, Ok, OtherException])
          ''111#E1#Requests'' True)) ''111#E1#Requests'' = 4"
proof -
  let ?k = "''111#E1#Requests''"
  let ?tbl = "ddb_abuse_counter_table default_config"
  let ?now = "at_time 10 20"
  let ?wk = "window_key_of ?k ?now"
  let ?ttl = "int_timestamp ?now + abuse_counter_ttl default_config"
  let ?sa = "counter_system 3 [Ok, Ok, ClientError ''AccessDeniedException'']"
  let ?sa1 = "fst (get_item_with_retry ?sa ?tbl ?wk)"
  let ?sa2 = "fst (get_abuse_counter default_config ?sa1 ?k)"
  let ?sa3 = "fst (put_item_with_retry ?sa2 ?tbl (CounterItem ?k 4 ?now ?ttl))"
  let ?sb = "counter_system 3 [Ok, Ok, Ok, OtherException]"
  let ?sb1 = "fst (get_item_with_retry ?sb ?tbl ?wk)"
  let ?sb2 = "fst (get_abuse_counter default_config ?sb1 ?k)"
  let ?sb3 = "fst (put_item_with_retry ?sb2 ?tbl (CounterItem ?k 4 ?now ?ttl))"
  let ?sb4 = "fst (put_item_with_retry ?sb3 ?tbl (CounterItem ?wk 4 ?now ?ttl))"
  have neq: "?wk \<noteq> ?k" by (rule window_key_neq)
  have a: "get_item_with_retry ?sa ?tbl ?wk = (?sa1, None)"
      "get_abuse_counter default_config ?sa1 ?k = (?sa2, 3)"
      "put_item_with_retry ?sa2 ?tbl (CounterItem ?k 4 ?now ?ttl) = (?sa3, False)"
    using neq by (simp_all add: store_eval)
  have b: "get_item_with_retry ?sb ?tbl ?wk = (?sb1, None)"
      "get_abuse_counter default_config ?sb1 ?k = (?sb2, 3)"
      "put_item_with_retry ?sb2 ?tbl (CounterItem ?k 4 ?now ?ttl) = (?sb3, True)"
      "put_item_with_retry ?sb3 ?tbl (CounterItem ?wk 4 ?now ?ttl) = (?sb4, False)"
    using neq by (simp_all add: store_eval)
  have ta: "tables ?sa = tables (counter_system 3 [])"
    by (simp add: counter_system_def)
  from counter_write_failure
         [where s = ?sa and cfg = default_config and key = ?k and now = ?now and ?s1.0 = ?sa1
            and ?s2.0 = ?sa2 and current_count = 3 and new_count = 4 and abuse = True
            and main_item = "CounterItem ?k 4 ?now ?ttl"
            and window_item = "CounterItem ?wk 4 ?now ?ttl" and ?s3.0 = ?sa3 and ?s4.0 = ?sa3]
       a ta
  have A: "update_abuse_counter default_config ?now ?sa ?k True = (?sa3, 3)"
      "tables ?sa3 = tables (counter_system 3 [])"
    by simp_all
  from counter_write_failure
         [where s = ?sb and cfg = default_config and key = ?k and now = ?now and ?s1.0 = ?sb1
            and ?s2.0 = ?sb2 and current_count = 3 and new_count = 4 and abuse = True
            and main_item = "CounterItem ?k 4 ?now ?ttl"
            and window_item = "CounterItem ?wk 4 ?now ?ttl" and ?s3.0 = ?sb3 and ?s4.0 = ?sb4]
       b
  have B: "update_abuse_counter default_config ?now ?sb ?k True = (?sb4, 4)"
      "tables ?sb4 = (tables ?sb)(?tbl := (tables ?sb ?tbl)(?k \<mapsto> CounterItem ?k 4 ?now ?ttl))"
    by simp_all
  show ?thesis
    unfolding A B fst_conv snd_conv
    by (simp add: A(2) stored_count_def B(2))
qed

text \<open>
  When the lookup of the marker itself fails, the update goes on as after a miss: the
  counter is read, incremented and written although the window already has its marker.
\<close>

lemma marker_lookup_failure_example:
  "snd (update_abuse_counter default_config (at_time 10 20)
          (empty_system \<lparr> tables := (\<lambda>t. Map.empty)(''CF_Abuse_Counter'' :=
               [''111#E1#Requests'' \<mapsto> CounterItem ''111#E1#Requests'' 3 (at_time 10 16) 0,
                window_key_of ''111#E1#Requests'' (at_time 10 20) \<mapsto>
                  CounterItem (window_key_of ''111#E1#Requests'' (at_time 10 20)) 3
                    (at_time 10 16) 0]),
             ddb_responses := [OtherException] \<rparr>)
          ''111#E1#Requests'' True) = 4"
  using window_key_neq[of "''111#E1#Requests''" "at_time 10 20"]
  by (simp add: store_eval)

text \<open>
  A counter update touches the store only and begins with the read of the window marker.
\<close>

lemma get_abuse_counter_frame:
  assumes "get_abuse_counter cfg s key = (s', c)"
  shows "\<exists>rs cs. s' = s\<lparr> ddb_responses := rs, ddb_calls := ddb_calls s @ cs \<rparr>"
proof -
  obtain r where "get_item_with_retry s (ddb_abuse_counter_table cfg) key = (s', r)"
    using assms by (auto simp: get_abuse_counter_def split: prod.splits option.splits)
  from get_item_with_retry_frame[OF this] show ?thesis by blast
qed

lemma update_abuse_counter_frame:
  assumes upd: "update_abuse_counter cfg now s key abuse = (s', c)"
  shows "\<exists>rs cs tb. s' = s\<lparr> ddb_responses := rs,
            ddb_calls := ddb_calls s
              @ GetItem (ddb_abuse_counter_table cfg) (window_key_of key now) # cs,
            tables := tb \<rparr>"
proof -
  let ?tbl = "ddb_abuse_counter_table cfg"
  let ?wk = "window_key_of key now"
  obtain s1 cached where g: "get_item_with_retry s ?tbl ?wk = (s1, cached)"
    by (cases "get_item_with_retry s ?tbl ?wk")
  from get_item_with_retry_frame[OF g]
  obtain rs1 n where s1: "s1 = s\<lparr> ddb_responses := rs1,
      ddb_calls := ddb_calls s @ replicate n (GetItem ?tbl ?wk) \<rparr>" "0 < n"
    by blast
  then obtain m where n: "n = Suc m" by (cases n) auto
  have s1': "s1 = s\<lparr> ddb_responses := rs1,
      ddb_calls := ddb_calls s @ GetItem ?tbl ?wk # replicate m (GetItem ?tbl ?wk),
      tables := tables s \<rparr>"
    using s1(1) n by simp
  show ?thesis
  proof (cases cached)
    case (Some marker)
    with g upd have "s' = s1"
      by (simp add: update_abuse_counter_hit)
    with s1' show ?thesis by blast
  next
    case None
    obtain s2 cur where c: "get_abuse_counter cfg s1 key = (s2, cur)"
      by (cases "get_abuse_counter cfg s1 key")
    from get_abuse_counter_frame[OF c]
    obtain rs2 cs2 where s2: "s2 = s1\<lparr> ddb_responses := rs2, ddb_calls := ddb_calls s1 @ cs2 \<rparr>"
      by blast
    define nc where "nc = (if abuse then cur + 1 else max 0 (cur - 1))"
    define ttl where "ttl = int_timestamp now + abuse_counter_ttl cfg"
    obtain s3 ok where p: "put_item_with_retry s2 ?tbl (CounterItem key nc now ttl) = (s3, ok)"
      by (cases "put_item_with_retry s2 ?tbl (CounterItem key nc now ttl)")
    from put_item_with_retry_frame[OF p]
    obtain rs3 cs3 tb3 where s3: "s3 = s2\<lparr> ddb_responses := rs3,
        ddb_calls := ddb_calls s2 @ cs3, tables := tb3 \<rparr>"
      by blast
    obtain s4 ok' where q: "put_item_with_retry s3 ?tbl (CounterItem ?wk nc now ttl) = (s4, ok')"
      by (cases "put_item_with_retry s3 ?tbl (CounterItem ?wk nc now ttl)")
    from put_item_with_retry_frame[OF q]
    obtain rs4 cs4 tb4 where s4: "s4 = s3\<lparr> ddb_responses := rs4,
        ddb_calls := ddb_calls s3 @ cs4, tables := tb4 \<rparr>"
      by blast
    have "update_abuse_counter cfg now s key abuse = (if \<not> ok then (s3, cur) else (s4, nc))"
      using update_abuse_counter_miss[OF g[unfolded None] c p[unfolded nc_def ttl_def]] q
      by (simp add: nc_def ttl_def)
    with upd have "s' = s3 \<or> s' = s4"
      by (auto split: if_splits)
    then show ?thesis
    proof
      assume "s' = s3"
      then have "s' = s\<lparr> ddb_responses := rs3,
            ddb_calls := ddb_calls s @ GetItem ?tbl ?wk
               # (replicate m (GetItem ?tbl ?wk) @ cs2 @ cs3),
            tables := tb3 \<rparr>"
        by (simp add: s3 s2 s1')
      then show ?thesis by blast
    next
      assume "s' = s4"
      then have "s' = s\<lparr> ddb_responses := rs4,
            ddb_calls := ddb_calls s @ GetItem ?tbl ?wk
               # (replicate m (GetItem ?tbl ?wk) @ cs2 @ cs3 @ cs4),
            tables := tb4 \<rparr>"
        by (simp add: s4 s3 s2 s1')
      then show ?thesis by blast
    qed
  qed
qed

section \<open>Properties of the distribution processor\<close>

lemma example_evaluations:
  "evaluate_metric default_config ''Requests'' (Finite 3000) (Finite 500) = Inr critical_evaluation"
  "evaluate_metric default_config ''Requests'' (Finite 2000) (Finite 800) = Inr warning_evaluation"
  by (simp_all add: eval_simps critical_evaluation_def warning_evaluation_def)

lemma should_alert_iff:
  "should_alert cfg ev new_count =
     (is_abuse ev \<and> (if meets_critical_threshold ev then duration_threshold cfg \<le> new_count
                     else meets_warning_threshold ev \<and> warning_duration_threshold cfg \<le> new_count))"
  by (simp add: should_alert_def)

text \<open>
  Claim C4 (tiered duration gate). With \<open>new_count\<close> the count the counter update
  returns, \<open>_process_metric_evaluation\<close> submits an alert and returns 1 exactly when the
  evaluation is abusive and, if the critical threshold is met, \<open>new_count\<close> has reached
  \<open>duration_threshold\<close>, or else the warning threshold is met and \<open>new_count\<close> has reached
  \<open>warning_duration_threshold\<close>; otherwise nothing is submitted and 0 is returned. An
  evaluation that is not abusive never alerts. With durations 1 and 2 and a count of 1,
  the alert goes out exactly for a critical detection.
\<close>

theorem tiered_duration_gate:
  "update_abuse_counter cfg now_update s (acct_id @ ''#'' @ dist_id @ ''#'' @ metric_name)
       (is_abuse ev) = (s1, new_count)
   \<and> gate = (is_abuse ev
             \<and> (if meets_critical_threshold ev then duration_threshold cfg \<le> new_count
                else meets_warning_threshold ev \<and> warning_duration_threshold cfg \<le> new_count))
   \<and> alert = \<lparr> account_id = acct_id, account_name = acct_name, account_email = acct_email,
                distribution_id = dist_id, metric = metric_name,
                alert_severity = severity ev, current_value = cur_value,
                history_value = hist_value, alert_abuse_multiplier = multiplier_level ev,
                consecutive_count = new_count, timestamp = now_alert,
                alert_percentage_change = percentage_change ev \<rparr>
   \<and> result = process_metric_evaluation cfg now_update now_alert s acct_id acct_name acct_email
                dist_id metric_name ev cur_value hist_value
   \<longrightarrow> result = (if gate then (send_alert_async s1 alert, 1) else (s1, 0))
       \<and> (\<forall>submitted. alert_executor s = Some submitted \<longrightarrow>
             alert_executor (fst result) = Some (if gate then submitted @ [alert] else submitted))
       \<and> (\<not> is_abuse ev \<longrightarrow> snd result = 0)
       \<and> (duration_threshold cfg = 1 \<and> warning_duration_threshold cfg = 2 \<and> new_count = 1
            \<longrightarrow> (snd result = 1) = (is_abuse ev \<and> meets_critical_threshold ev))"
proof (intro impI; elim conjE)
  assume upd: "update_abuse_counter cfg now_update s
                 (acct_id @ ''#'' @ dist_id @ ''#'' @ metric_name) (is_abuse ev) = (s1, new_count)"
    and gate: "gate = (is_abuse ev
             \<and> (if meets_critical_threshold ev then duration_threshold cfg \<le> new_count
                else meets_warning_threshold ev \<and> warning_duration_threshold cfg \<le> new_count))"
    and alert: "alert = \<lparr> account_id = acct_id, account_name = acct_name,
                account_email = acct_email,
                distribution_id = dist_id, metric = metric_name,
                alert_severity = severity ev, current_value = cur_value,
                history_value = hist_value, alert_abuse_multiplier = multiplier_level ev,
                consecutive_count = new_count, timestamp = now_alert,
                alert_percentage_change = percentage_change ev \<rparr>"
    and result: "result = process_metric_evaluation cfg now_update now_alert s acct_id acct_name
                acct_email dist_id metric_name ev cur_value hist_value"
  have g: "should_alert cfg ev new_count = gate"
    by (simp add: should_alert_iff gate)
  have res: "result = (if gate then (send_alert_async s1 alert, 1) else (s1, 0))"
    using upd by (simp add: result process_metric_evaluation_def Let_def g alert)
  from update_abuse_counter_frame[OF upd]
  have ex: "alert_executor s1 = alert_executor s"
    by auto
  have queue: "\<forall>submitted. alert_executor s = Some submitted \<longrightarrow>
             alert_executor (fst result) = Some (if gate then submitted @ [alert] else submitted)"
    by (simp add: res ex send_alert_async_def)
  have quiet: "\<not> is_abuse ev \<longrightarrow> snd result = 0"
    by (simp add: res gate)
  have dflt: "duration_threshold cfg = 1 \<and> warning_duration_threshold cfg = 2 \<and> new_count = 1
            \<longrightarrow> (snd result = 1) = (is_abuse ev \<and> meets_critical_threshold ev)"
    by (auto simp: res gate)
  from res queue quiet dflt
  show "result = (if gate then (send_alert_async s1 alert, 1) else (s1, 0))
       \<and> (\<forall>submitted. alert_executor s = Some submitted \<longrightarrow>
             alert_executor (fst result) = Some (if gate then submitted @ [alert] else submitted))
       \<and> (\<not> is_abuse ev \<longrightarrow> snd result = 0)
       \<and> (duration_threshold cfg = 1 \<and> warning_duration_threshold cfg = 2 \<and> new_count = 1
            \<longrightarrow> (snd result = 1) = (is_abuse ev \<and> meets_critical_threshold ev))"
    by blast
qed

theorem tiered_duration_gate_witness:
  "snd (process_metric_evaluation default_config (at_time 10 20) (at_time 10 21)
          (initialize empty_system) ''111'' ''prod'' ''ops'' ''E1'' ''Requests''
          critical_evaluation (Finite 3000) (Finite 500)) = 1
   \<and> alert_executor (fst (process_metric_evaluation default_config (at_time 10 20) (at_time 10 21)
          (initialize empty_system) ''111'' ''prod'' ''ops'' ''E1'' ''Requests''
          critical_evaluation (Finite 3000) (Finite 500)))
       = Some [\<lparr> account_id = ''111'', account_name = ''prod'', account_email = ''ops'',
                  distribution_id = ''E1'', metric = ''Requests'', alert_severity = ''Critical'',
                  current_value = Finite 3000, history_value = Finite 500,
                  alert_abuse_multiplier = Finite 3, consecutive_count = 1,
                  timestamp = at_time 10 21, alert_percentage_change = Finite 500 \<rparr>]
   \<and> snd (process_metric_evaluation default_config (at_time 10 20) (at_time 10 21)
          (initialize empty_system) ''111'' ''prod'' ''ops'' ''E1'' ''Requests''
          warning_evaluation (Finite 2000) (Finite 800)) = 0
   \<and> alert_executor (fst (process_metric_evaluation default_config (at_time 10 20) (at_time 10 21)
          (initialize empty_system) ''111'' ''prod'' ''ops'' ''E1'' ''Requests''
          warning_evaluation (Finite 2000) (Finite 800))) = Some []"
proof -
  let ?s = "initialize empty_system"
  let ?key = "''111'' @ ''#'' @ ''E1'' @ ''#'' @ ''Requests''"
  let ?s1 = "fst (update_abuse_counter default_config (at_time 10 20) ?s ?key True)"
  have u: "update_abuse_counter default_config (at_time 10 20) ?s ?key True = (?s1, 1)"
    by (simp add: store_eval initialize_def)
  have ex: "alert_executor ?s = Some []" "alert_executor ?s1 = Some []"
    by (simp_all add: store_eval initialize_def)
  have d: "duration_threshold default_config = 1" "warning_duration_threshold default_config = 2"
    by (simp_all add: default_config_def)
  note crit = tiered_duration_gate
         [where cfg = default_config and now_update = "at_time 10 20" and s = ?s
            and acct_id = "''111''" and dist_id = "''E1''" and metric_name = "''Requests''"
            and ev = critical_evaluation and ?s1.0 = ?s1 and new_count = 1 and gate = True
            and acct_name = "''prod''" and acct_email = "''ops''" and cur_value = "Finite 3000"
            and hist_value = "Finite 500" and now_alert = "at_time 10 21"
            and alert = "\<lparr> account_id = ''111'', account_name = ''prod'', account_email = ''ops'',
                  distribution_id = ''E1'', metric = ''Requests'', alert_severity = ''Critical'',
                  current_value = Finite 3000, history_value = Finite 500,
                  alert_abuse_multiplier = Finite 3, consecutive_count = 1,
                  timestamp = at_time 10 21, alert_percentage_change = Finite 500 \<rparr>"
            and result = "process_metric_evaluation default_config (at_time 10 20) (at_time 10 21)
                ?s ''111'' ''prod'' ''ops'' ''E1'' ''Requests''
                critical_evaluation (Finite 3000) (Finite 500)"]
  note warn = tiered_duration_gate
         [where cfg = default_config and now_update = "at_time 10 20" and s = ?s
            and acct_id = "''111''" and dist_id = "''E1''" and metric_name = "''Requests''"
            and ev = warning_evaluation and ?s1.0 = ?s1 and new_count = 1 and gate = False
            and acct_name = "''prod''" and acct_email = "''ops''" and cur_value = "Finite 2000"
            and hist_value = "Finite 800" and now_alert = "at_time 10 21"
            and alert = "\<lparr> account_id = ''111'', account_name = ''prod'', account_email = ''ops'',
                  distribution_id = ''E1'', metric = ''Requests'', alert_severity = ''Warning'',
                  current_value = Finite 2000, history_value = Finite 800,
                  alert_abuse_multiplier = Finite 2, consecutive_count = 1,
                  timestamp = at_time 10 21, alert_percentage_change = Finite 150 \<rparr>"
            and result = "process_metric_evaluation default_config (at_time 10 20) (at_time 10 21)
                ?s ''111'' ''prod'' ''ops'' ''E1'' ''Requests''
                warning_evaluation (Finite 2000) (Finite 800)"]
  have c: "is_abuse critical_evaluation" "meets_critical_threshold critical_evaluation"
      "severity critical_evaluation = ''Critical''" "multiplier_level critical_evaluation = Finite 3"
      "percentage_change critical_evaluation = Finite 500"
    by (simp_all add: critical_evaluation_def)
  have w: "is_abuse warning_evaluation" "\<not> meets_critical_threshold warning_evaluation"
      "meets_warning_threshold warning_evaluation"
      "severity warning_evaluation = ''Warning''" "multiplier_level warning_evaluation = Finite 2"
      "percentage_change warning_evaluation = Finite 150"
    by (simp_all add: warning_evaluation_def)
  from crit u c d ex
  have "snd (process_metric_evaluation default_config (at_time 10 20) (at_time 10 21)
          ?s ''111'' ''prod'' ''ops'' ''E1'' ''Requests''
          critical_evaluation (Finite 3000) (Finite 500)) = 1
   \<and> alert_executor (fst (process_metric_evaluation default_config (at_time 10 20) (at_time 10 21)
          ?s ''111'' ''prod'' ''ops'' ''E1'' ''Requests''
          critical_evaluation (Finite 3000) (Finite 500)))
       = Some [\<lparr> account_id = ''111'', account_name = ''prod'', account_email = ''ops'',
                  distribution_id = ''E1'', metric = ''Requests'', alert_severity = ''Critical'',
                  current_value = Finite 3000, history_value = Finite 500,
                  alert_abuse_multiplier = Finite 3, consecutive_count = 1,
                  timestamp = at_time 10 21, alert_percentage_change = Finite 500 \<rparr>]"
    by (simp add: send_alert_async_def)
  moreover from warn u w d ex
  have "snd (process_metric_evaluation default_config (at_time 10 20) (at_time 10 21)
          ?s ''111'' ''prod'' ''ops'' ''E1'' ''Requests''
          warning_evaluation (Finite 2000) (Finite 800)) = 0
   \<and> alert_executor (fst (process_metric_evaluation default_config (at_time 10 20) (at_time 10 21)
          ?s ''111'' ''prod'' ''ops'' ''E1'' ''Requests''
          warning_evaluation (Finite 2000) (Finite 800))) = Some []"
    by (simp add: send_alert_async_def)
  ultimately show ?thesis by blast
qed

text \<open>
  A warning-tier detection alone does not alert; the next one, a window later, brings the
  count to 2 and does.
\<close>

lemma sustained_warning_example:
  "(case process_metric_evaluation default_config (at_time 10 20) (at_time 10 21)
           (initialize empty_system) ''111'' ''prod'' ''ops'' ''E1'' ''Requests''
           warning_evaluation (Finite 2000) (Finite 800) of
      (s1, n1) \<Rightarrow>
        (n1, snd (process_metric_evaluation default_config (at_time 10 35) (at_time 10 36)
                    s1 ''111'' ''prod'' ''ops'' ''E1'' ''Requests''
                    warning_evaluation (Finite 2000) (Finite 800)))) = (0, 1)"
  by (simp add: process_metric_evaluation_def should_alert_def store_eval key_eval
        initialize_def warning_evaluation_def send_alert_async_def)

lemma py_ge_not_lt: "py_ge a b \<Longrightarrow> \<not> py_lt a b"
  by (cases a; cases b) (auto simp: py_ge_def py_gt_def)

lemma process_metric_evaluation_frame:
  assumes "process_metric_evaluation cfg now_update now_alert s acct_id acct_name acct_email
             dist_id metric_name ev cur_value hist_value = (s', n)"
  shows "\<exists>cs. ddb_calls s' = ddb_calls s
           @ GetItem (ddb_abuse_counter_table cfg)
               (window_key_of (acct_id @ ''#'' @ dist_id @ ''#'' @ metric_name) now_update) # cs"
proof -
  obtain s1 c where u: "update_abuse_counter cfg now_update s
      (acct_id @ ''#'' @ dist_id @ ''#'' @ metric_name) (is_abuse ev) = (s1, c)"
    by (cases "update_abuse_counter cfg now_update s
      (acct_id @ ''#'' @ dist_id @ ''#'' @ metric_name) (is_abuse ev)")
  from update_abuse_counter_frame[OF u]
  obtain cs where cs: "ddb_calls s1 = ddb_calls s
           @ GetItem (ddb_abuse_counter_table cfg)
               (window_key_of (acct_id @ ''#'' @ dist_id @ ''#'' @ metric_name) now_update) # cs"
    by auto
  have "ddb_calls s' = ddb_calls s1"
    using assms u
    by (auto simp: process_metric_evaluation_def Let_def send_alert_async_def
          split: if_splits option.splits)
  with cs show ?thesis by simp
qed

text \<open>
  Claim C10 (small-distribution skip). When the current request count is below
  \<open>min_requests_threshold\<close> and the current bytes are below \<open>min_bytes_threshold\<close>,
  \<open>process_distribution\<close> returns 0 and leaves everything as it was: no store request, no
  counter change, no alert submitted. When either value is at or above its minimum the
  distribution is not skipped, and whenever it is not skipped both metrics are evaluated
  and processed in turn, beginning with the counter update of the requests metric.
\<close>

theorem small_distribution_skip:
  "(py_lt (current_requests metrics) (float_of_int (min_requests_threshold cfg))
      \<and> py_lt (current_bytes metrics) (float_of_int (min_bytes_threshold cfg))
    \<longrightarrow> process_distribution cfg t_req t_bytes s acct_id acct_name acct_email dist_id metrics
          = (s, 0))
   \<and> (py_ge (current_requests metrics) (float_of_int (min_requests_threshold cfg))
       \<or> py_ge (current_bytes metrics) (float_of_int (min_bytes_threshold cfg))
    \<longrightarrow> \<not> should_skip_distribution cfg (current_requests metrics) (current_bytes metrics))
   \<and> (\<not> should_skip_distribution cfg (current_requests metrics) (current_bytes metrics)
    \<longrightarrow> (\<exists>requests_eval bytes_eval s1 n1 s2 n2 cs.
           evaluate_metric cfg ''Requests'' (current_requests metrics) (avg_requests metrics)
             = Inr requests_eval
         \<and> evaluate_metric cfg ''BytesDownloaded'' (current_bytes metrics) (avg_bytes metrics)
             = Inr bytes_eval
         \<and> process_metric_evaluation cfg (fst t_req) (snd t_req) s acct_id acct_name acct_email
             dist_id ''Requests'' requests_eval (current_requests metrics) (avg_requests metrics)
             = (s1, n1)
         \<and> process_metric_evaluation cfg (fst t_bytes) (snd t_bytes) s1 acct_id acct_name
             acct_email dist_id ''BytesDownloaded'' bytes_eval (current_bytes metrics)
             (avg_bytes metrics) = (s2, n2)
         \<and> process_distribution cfg t_req t_bytes s acct_id acct_name acct_email dist_id metrics
             = (s2, n1 + n2)
         \<and> ddb_calls s2 = ddb_calls s
              @ GetItem (ddb_abuse_counter_table cfg)
                  (window_key_of (acct_id @ ''#'' @ dist_id @ ''#'' @ ''Requests'') (fst t_req))
              # cs))"
proof (intro conjI impI)
  assume "py_lt (current_requests metrics) (float_of_int (min_requests_threshold cfg))
      \<and> py_lt (current_bytes metrics) (float_of_int (min_bytes_threshold cfg))"
  then show "process_distribution cfg t_req t_bytes s acct_id acct_name acct_email dist_id metrics
          = (s, 0)"
    by (simp add: process_distribution_def should_skip_distribution_def)
next
  assume "py_ge (current_requests metrics) (float_of_int (min_requests_threshold cfg))
       \<or> py_ge (current_bytes metrics) (float_of_int (min_bytes_threshold cfg))"
  then show "\<not> should_skip_distribution cfg (current_requests metrics) (current_bytes metrics)"
    by (auto simp: should_skip_distribution_def dest: py_ge_not_lt)
next
  assume noskip: "\<not> should_skip_distribution cfg (current_requests metrics) (current_bytes metrics)"
  obtain re where re: "evaluate_metric cfg ''Requests'' (current_requests metrics)
      (avg_requests metrics) = Inr re"
    using evaluate_metric_returns by blast
  obtain be where be: "evaluate_metric cfg ''BytesDownloaded'' (current_bytes metrics)
      (avg_bytes metrics) = Inr be"
    using evaluate_metric_returns by blast
  obtain s1 n1 where p1: "process_metric_evaluation cfg (fst t_req) (snd t_req) s acct_id
      acct_name acct_email dist_id ''Requests'' re (current_requests metrics)
      (avg_requests metrics) = (s1, n1)"
    by (cases "process_metric_evaluation cfg (fst t_req) (snd t_req) s acct_id
      acct_name acct_email dist_id ''Requests'' re (current_requests metrics)
      (avg_requests metrics)")
  obtain s2 n2 where p2: "process_metric_evaluation cfg (fst t_bytes) (snd t_bytes) s1 acct_id
      acct_name acct_email dist_id ''BytesDownloaded'' be (current_bytes metrics)
      (avg_bytes metrics) = (s2, n2)"
    by (cases "process_metric_evaluation cfg (fst t_bytes) (snd t_bytes) s1 acct_id
      acct_name acct_email dist_id ''BytesDownloaded'' be (current_bytes metrics)
      (avg_bytes metrics)")
  have pd: "process_distribution cfg t_req t_bytes s acct_id acct_name acct_email dist_id metrics
             = (s2, n1 + n2)"
    using noskip by (simp add: process_distribution_def re be p1 p2)
  from process_metric_evaluation_frame[OF p1] process_metric_evaluation_frame[OF p2]
  obtain cs where "ddb_calls s2 = ddb_calls s
              @ GetItem (ddb_abuse_counter_table cfg)
                  (window_key_of (acct_id @ ''#'' @ dist_id @ ''#'' @ ''Requests'') (fst t_req))
              # cs"
    by auto
  with re be p1 p2 pd
  show "\<exists>requests_eval bytes_eval s1 n1 s2 n2 cs.
           evaluate_metric cfg ''Requests'' (current_requests metrics) (avg_requests metrics)
             = Inr requests_eval
         \<and> evaluate_metric cfg ''BytesDownloaded'' (current_bytes metrics) (avg_bytes metrics)
             = Inr bytes_eval
         \<and> process_metric_evaluation cfg (fst t_req) (snd t_req) s acct_id acct_name acct_email
             dist_id ''Requests'' requests_eval (current_requests metrics) (avg_requests metrics)
             = (s1, n1)
         \<and> process_metric_evaluation cfg (fst t_bytes) (snd t_bytes) s1 acct_id acct_name
             acct_email dist_id ''BytesDownloaded'' bytes_eval (current_bytes metrics)
             (avg_bytes metrics) = (s2, n2)
         \<and> process_distribution cfg t_req t_bytes s acct_id acct_name acct_email dist_id metrics
             = (s2, n1 + n2)
         \<and> ddb_calls s2 = ddb_calls s
              @ GetItem (ddb_abuse_counter_table cfg)
                  (window_key_of (acct_id @ ''#'' @ dist_id @ ''#'' @ ''Requests'') (fst t_req))
              # cs"
    by blast
qed

theorem small_distribution_skip_witness:
  "process_distribution default_config (at_time 10 20, at_time 10 21) (at_time 10 22, at_time 10 23)
       (initialize empty_system) ''111'' ''prod'' ''ops'' ''E1''
       \<lparr> current_requests = Finite 500, current_bytes = Finite 104857600,
         avg_requests = Finite 10, avg_bytes = Finite 1000 \<rparr>
     = (initialize empty_system, 0)
   \<and> \<not> should_skip_distribution default_config (Finite 3000) (Finite 100)
   \<and> ddb_calls (fst (process_distribution default_config (at_time 10 20, at_time 10 21)
         (at_time 10 22, at_time 10 23) (initialize empty_system) ''111'' ''prod'' ''ops'' ''E1''
         \<lparr> current_requests = Finite 3000, current_bytes = Finite 100,
           avg_requests = Finite 500, avg_bytes = Finite 100 \<rparr>)) \<noteq> []
   \<and> snd (process_distribution default_config (at_time 10 20, at_time 10 21)
         (at_time 10 22, at_time 10 23) (initialize empty_system) ''111'' ''prod'' ''ops'' ''E1''
         \<lparr> current_requests = Finite 3000, current_bytes = Finite 100,
           avg_requests = Finite 500, avg_bytes = Finite 100 \<rparr>) = 1"
proof -
  let ?small = "\<lparr> current_requests = Finite 500, current_bytes = Finite 104857600,
         avg_requests = Finite 10, avg_bytes = Finite 1000 \<rparr>"
  let ?busy = "\<lparr> current_requests = Finite 3000, current_bytes = Finite 100,
           avg_requests = Finite 500, avg_bytes = Finite 100 \<rparr>"
  let ?s = "initialize empty_system"
  have a: "process_distribution default_config (at_time 10 20, at_time 10 21)
       (at_time 10 22, at_time 10 23) ?s ''111'' ''prod'' ''ops'' ''E1'' ?small = (?s, 0)"
    using small_distribution_skip
            [where metrics = ?small and cfg = default_config and s = ?s
               and t_req = "(at_time 10 20, at_time 10 21)"
               and t_bytes = "(at_time 10 22, at_time 10 23)" and acct_id = "''111''"
               and acct_name = "''prod''" and acct_email = "''ops''" and dist_id = "''E1''"]
    by (simp add: default_config_def float_of_int_def)
  note busy = small_distribution_skip
            [where metrics = ?busy and cfg = default_config and s = ?s
               and t_req = "(at_time 10 20, at_time 10 21)"
               and t_bytes = "(at_time 10 22, at_time 10 23)" and acct_id = "''111''"
               and acct_name = "''prod''" and acct_email = "''ops''" and dist_id = "''E1''"]
  have ge: "py_ge (current_requests ?busy) (float_of_int (min_requests_threshold default_config))"
    by (simp add: py_ge_Finite default_config_def)
  have b: "\<not> should_skip_distribution default_config (Finite 3000) (Finite 100)"
    using busy ge by simp
  have c: "ddb_calls (fst (process_distribution default_config (at_time 10 20, at_time 10 21)
         (at_time 10 22, at_time 10 23) ?s ''111'' ''prod'' ''ops'' ''E1'' ?busy)) \<noteq> []"
    using busy b by auto
  have d: "snd (process_distribution default_config (at_time 10 20, at_time 10 21)
         (at_time 10 22, at_time 10 23) ?s ''111'' ''prod'' ''ops'' ''E1'' ?busy) = 1"
    by (simp add: process_distribution_def should_skip_distribution_def eval_simps
          process_metric_evaluation_def should_alert_def store_eval key_eval initialize_def
          send_alert_async_def)
  from a b c d show ?thesis by blast
qed

section \<open>Properties of the alert key\<close>

lemma digit_char_inj:
  assumes "a < 10" and "b < 10" and "digit_char a = digit_char b"
  shows "a = b"
proof -
  have d: "distinct ''0123456789''" by simp
  have "a < length ''0123456789''" "b < length ''0123456789''"
    using assms by simp_all
  with d assms(3) show ?thesis
    unfolding digit_char_def using assms(1,2)
    by (simp add: nth_eq_iff_index_eq)
qed

lemma str_nat_not_Nil: "str_nat n \<noteq> []"
  by (subst str_nat.simps) simp

lemma length_str_nat_small: "n < 10 \<Longrightarrow> length (str_nat n) = 1"
  by (subst str_nat.simps) simp

lemma length_str_nat_large: "10 \<le> n \<Longrightarrow> 2 \<le> length (str_nat n)"
proof -
  assume "10 \<le> n"
  then have "str_nat n = str_nat (n div 10) @ [digit_char (n mod 10)]"
    by (subst str_nat.simps) simp
  moreover have "1 \<le> length (str_nat (n div 10))"
    using str_nat_not_Nil[of "n div 10"] by (cases "str_nat (n div 10)") simp_all
  ultimately show ?thesis by simp
qed

lemma str_nat_inj: "str_nat n = str_nat m \<Longrightarrow> n = m"
proof (induction n arbitrary: m rule: str_nat.induct)
  case (1 n)
  show ?case
  proof (cases "n < 10")
    case True
    then have ln: "length (str_nat m) = 1"
      using "1.prems" length_str_nat_small[of n] by simp
    have m: "m < 10"
      using ln length_str_nat_large[of m] by (cases "m < 10") auto
    from True m "1.prems" have "digit_char n = digit_char m"
      by (simp add: str_nat.simps[of n] str_nat.simps[of m])
    with True m show ?thesis by (rule digit_char_inj)
  next
    case False
    then have ln: "2 \<le> length (str_nat m)"
      using "1.prems" length_str_nat_large[of n] by simp
    have m: "\<not> m < 10"
      using ln length_str_nat_small[of m] by auto
    from False m "1.prems"
    have eq: "str_nat (n div 10) @ [digit_char (n mod 10)]
            = str_nat (m div 10) @ [digit_char (m mod 10)]"
      by (simp add: str_nat.simps[of n] str_nat.simps[of m])
    then have "str_nat (n div 10) = str_nat (m div 10)" "digit_char (n mod 10) = digit_char (m mod 10)"
      by simp_all
    then have "n div 10 = m div 10" "n mod 10 = m mod 10"
      using "1.IH"[OF False] digit_char_inj[of "n mod 10" "m mod 10"] by simp_all
    then show ?thesis
      by (metis div_mult_mod_eq)
  qed
qed

lemma zfill2_str_nat:
  "n < 100 \<Longrightarrow> zfill 2 (str_nat n) = [digit_char (n div 10), digit_char (n mod 10)]"
proof -
  assume n: "n < 100"
  show ?thesis
  proof (cases "n < 10")
    case True
    then show ?thesis
      by (simp add: zfill_def str_nat.simps[of n] digit_char_def)
  next
    case False
    with n have "n div 10 < 10" by simp
    with False show ?thesis
      by (simp add: zfill_def str_nat.simps[of n] str_nat.simps[of "n div 10"])
  qed
qed

lemma zfill2_str_nat_inj:
  assumes "n < 100" and "m < 100" and "zfill 2 (str_nat n) = zfill 2 (str_nat m)"
  shows "n = m"
proof -
  from assms have "digit_char (n div 10) = digit_char (m div 10)"
      "digit_char (n mod 10) = digit_char (m mod 10)"
    by (simp_all add: zfill2_str_nat)
  moreover have "n div 10 < 10" "m div 10 < 10"
    using assms(1,2) by simp_all
  ultimately have "n div 10 = m div 10" "n mod 10 = m mod 10"
    using digit_char_inj[of "n div 10" "m div 10"] digit_char_inj[of "n mod 10" "m mod 10"]
    by simp_all
  then show ?thesis
    by (metis div_mult_mod_eq)
qed

text \<open>Two valid instants with the same hour key fall in the same clock hour.\<close>

lemma strftime_YmdH_inj:
  assumes "valid_datetime d1" and "valid_datetime d2"
    and "strftime_YmdH d1 = strftime_YmdH d2"
  shows "floor_to_hour d1 = floor_to_hour d2"
proof -
  let ?tail = "\<lambda>d. zfill 2 (str_nat (month d)) @ zfill 2 (str_nat (day d))
                 @ zfill 2 (str_nat (hour d))"
  have b1: "month d1 < 100" "day d1 < 100" "hour d1 < 100"
    and b2: "month d2 < 100" "day d2 < 100" "hour d2 < 100"
    using assms(1,2) by (simp_all add: valid_datetime_def)
  have len: "length (?tail d1) = length (?tail d2)"
    using b1 b2 by (simp add: zfill2_str_nat)
  from assms(3) have "str_nat (year d1) @ ?tail d1 = str_nat (year d2) @ ?tail d2"
    by (simp add: strftime_YmdH_def)
  with len have y: "str_nat (year d1) = str_nat (year d2)" and t: "?tail d1 = ?tail d2"
    by simp_all
  from t b1 b2 have "zfill 2 (str_nat (month d1)) = zfill 2 (str_nat (month d2))"
      "zfill 2 (str_nat (day d1)) = zfill 2 (str_nat (day d2))"
      "zfill 2 (str_nat (hour d1)) = zfill 2 (str_nat (hour d2))"
    by (simp_all add: zfill2_str_nat)
  with b1 b2 have "month d1 = month d2" "day d1 = day d2" "hour d1 = hour d2"
    by (auto intro: zfill2_str_nat_inj)
  with str_nat_inj[OF y] show ?thesis
    by (simp add: floor_to_hour_def)
qed

lemma alert_key_same_hour:
  assumes "account_id a1 = account_id a2" and "distribution_id a1 = distribution_id a2"
    and "metric a1 = metric a2"
    and "floor_to_hour (timestamp a1) = floor_to_hour (timestamp a2)"
  shows "alert_key_of a1 = alert_key_of a2"
  using assms by (simp add: alert_key_of_def strftime_YmdH_def floor_to_hour_def)

lemma alert_key_other_hour:
  assumes "account_id a1 = account_id a2" and "distribution_id a1 = distribution_id a2"
    and "metric a1 = metric a2"
    and "valid_datetime (timestamp a1)" and "valid_datetime (timestamp a2)"
    and "floor_to_hour (timestamp a1) \<noteq> floor_to_hour (timestamp a2)"
  shows "alert_key_of a1 \<noteq> alert_key_of a2"
  using assms strftime_YmdH_inj[of "timestamp a1" "timestamp a2"]
  by (auto simp: alert_key_of_def)

section \<open>Properties of the alert manager\<close>

lemma send_alert_with_dedup_recorded:
  "alert_key_of a \<in> sent_alerts s \<Longrightarrow> send_alert_with_dedup cfg now s a = (s, False)"
  by (simp add: send_alert_with_dedup_def is_duplicate_alert_def)

lemma send_alert_with_dedup_durable:
  assumes "alert_key_of a \<notin> sent_alerts s" and "ddb_responses s = []"
    and "tables s (ddb_sent_alerts_table cfg) (alert_key_of a) = Some found"
  shows "send_alert_with_dedup cfg now s a =
     (s\<lparr> ddb_calls := ddb_calls s @ [GetItem (ddb_sent_alerts_table cfg) (alert_key_of a)],
          sent_alerts := insert (alert_key_of a) (sent_alerts s) \<rparr>, False)"
  using assms
  by (simp add: send_alert_with_dedup_def is_duplicate_alert_def get_item_with_retry_ok Let_def)

lemma is_duplicate_alert_frame:
  assumes "is_duplicate_alert cfg s a = (s', d)"
  shows "\<exists>rs cs. s' = s\<lparr> ddb_responses := rs, ddb_calls := ddb_calls s @ cs,
            sent_alerts := (if d then insert (alert_key_of a) (sent_alerts s)
                            else sent_alerts s) \<rparr>"
    and "alert_key_of a \<notin> sent_alerts s
         \<and> tables s (ddb_sent_alerts_table cfg) (alert_key_of a) = None \<longrightarrow> \<not> d"
proof -
  show "\<exists>rs cs. s' = s\<lparr> ddb_responses := rs, ddb_calls := ddb_calls s @ cs,
            sent_alerts := (if d then insert (alert_key_of a) (sent_alerts s)
                            else sent_alerts s) \<rparr>"
  proof (cases "alert_key_of a \<in> sent_alerts s")
    case True
    with assms have "s' = s" "d"
      by (simp_all add: is_duplicate_alert_def)
    with True show ?thesis
      by (intro exI[of _ "ddb_responses s"] exI[of _ "[]"]) (simp add: insert_absorb)
  next
    case False
    obtain s1 r where g: "get_item_with_retry s (ddb_sent_alerts_table cfg) (alert_key_of a)
        = (s1, r)"
      by (cases "get_item_with_retry s (ddb_sent_alerts_table cfg) (alert_key_of a)")
    from get_item_with_retry_frame[OF g]
    obtain rs n where s1: "s1 = s\<lparr> ddb_responses := rs, ddb_calls := ddb_calls s
        @ replicate n (GetItem (ddb_sent_alerts_table cfg) (alert_key_of a)) \<rparr>"
      by blast
    from assms False g
    have "s' = (if d then s1\<lparr> sent_alerts := insert (alert_key_of a) (sent_alerts s1) \<rparr> else s1)"
      by (auto simp: is_duplicate_alert_def Let_def split: option.splits)
    with s1 show ?thesis
      by (intro exI[of _ rs]
            exI[of _ "replicate n (GetItem (ddb_sent_alerts_table cfg) (alert_key_of a))"]) simp
  qed
next
  show "alert_key_of a \<notin> sent_alerts s
         \<and> tables s (ddb_sent_alerts_table cfg) (alert_key_of a) = None \<longrightarrow> \<not> d"
  proof (intro impI; elim conjE)
    assume fresh: "alert_key_of a \<notin> sent_alerts s"
      "tables s (ddb_sent_alerts_table cfg) (alert_key_of a) = None"
    obtain s1 r where g: "get_item_with_retry s (ddb_sent_alerts_table cfg) (alert_key_of a)
        = (s1, r)"
      by (cases "get_item_with_retry s (ddb_sent_alerts_table cfg) (alert_key_of a)")
    from get_item_with_retry_frame[OF g] fresh(2) have "r = None"
      by auto
    with assms fresh(1) g show "\<not> d"
      by (simp add: is_duplicate_alert_def)
  qed
qed

lemma send_alert_frame:
  assumes "send_alert cfg s a = (s', ok)"
  shows "\<exists>rs n. s' = s\<lparr> http_responses := rs, http_calls := http_calls s @ replicate n a \<rparr>"
proof (cases "telegram_bot_token cfg = [] \<or> telegram_chat_id cfg = []")
  case True
  with assms have "s' = s"
    by (simp add: send_alert_def)
  then show ?thesis
    by (intro exI[of _ "http_responses s"] exI[of _ 0]) simp
next
  case False
  with assms have "send_alert_loop 2 0 a s = (s', ok)"
    by (simp add: send_alert_def)
  then show ?thesis
    by (rule send_alert_loop_frame)
qed

lemma send_alert_ok:
  assumes "telegram_bot_token cfg \<noteq> []" and "telegram_chat_id cfg \<noteq> []"
    and "http_responses s = []"
  shows "send_alert cfg s a = (s\<lparr> http_calls := http_calls s @ [a] \<rparr>, True)"
  using assms by (simp add: send_alert_def send_alert_loop.simps[of 2 0])

lemma record_sent_alert_frame:
  "\<exists>rs cs tb. record_sent_alert cfg now s a =
       s\<lparr> sent_alerts := insert (alert_key_of a) (sent_alerts s), ddb_responses := rs,
           ddb_calls := ddb_calls s @ cs, tables := tb \<rparr>
     \<and> (\<forall>t k. k \<noteq> alert_key_of a \<longrightarrow> tb t k = tables s t k)"
proof -
  let ?s1 = "s\<lparr> sent_alerts := insert (alert_key_of a) (sent_alerts s) \<rparr>"
  let ?it = "SentAlertItem (alert_key_of a) (account_id a) (distribution_id a) (metric a)
                 (alert_severity a) (current_value a) (history_value a)
                 (timestamp a) (int_timestamp now + sent_alerts_ttl cfg)"
  obtain s2 ok where p: "put_item_with_retry ?s1 (ddb_sent_alerts_table cfg) ?it = (s2, ok)"
    by (cases "put_item_with_retry ?s1 (ddb_sent_alerts_table cfg) ?it")
  from put_item_with_retry_frame[OF p]
  obtain rs n where s2: "s2 = ?s1\<lparr> ddb_responses := rs,
       ddb_calls := ddb_calls ?s1 @ replicate n (PutItem (ddb_sent_alerts_table cfg) (item_key ?it)),
       tables := (if ok then (tables ?s1)(ddb_sent_alerts_table cfg :=
                    (tables ?s1 (ddb_sent_alerts_table cfg))(item_key ?it \<mapsto> ?it))
                  else tables ?s1) \<rparr>"
    by blast
  have r: "record_sent_alert cfg now s a = s2"
    using p by (simp add: record_sent_alert_def Let_def)
  show ?thesis
    unfolding r s2
    by (intro exI[of _ rs]
          exI[of _ "replicate n (PutItem (ddb_sent_alerts_table cfg) (item_key ?it))"]
          exI[of _ "if ok then (tables s)(ddb_sent_alerts_table cfg :=
                    (tables s (ddb_sent_alerts_table cfg))(alert_key_of a \<mapsto> ?it))
                  else tables s"]) simp
qed

text \<open>What a successful dispatch leaves behind.\<close>

lemma send_alert_with_dedup_success:
  assumes "send_alert_with_dedup cfg now s a = (s', True)"
  shows "sent_alerts s' = insert (alert_key_of a) (sent_alerts s)"
    and "\<forall>t k. k \<noteq> alert_key_of a \<longrightarrow> tables s' t k = tables s t k"
    and "alert_executor s' = alert_executor s"
proof -
  obtain sa d where dup: "is_duplicate_alert cfg s a = (sa, d)"
    by (cases "is_duplicate_alert cfg s a")
  with assms have nd: "\<not> d"
    by (auto simp: send_alert_with_dedup_def)
  obtain sb ok where snd: "send_alert cfg sa a = (sb, ok)"
    by (cases "send_alert cfg sa a")
  with assms dup nd have ok: "ok" and s': "s' = record_sent_alert cfg now sb a"
    by (auto simp: send_alert_with_dedup_def split: if_splits bool.splits)
  from is_duplicate_alert_frame(1)[OF dup] nd
  obtain rs cs where sa: "sa = s\<lparr> ddb_responses := rs, ddb_calls := ddb_calls s @ cs \<rparr>"
    by auto
  from send_alert_frame[OF snd]
  obtain hs n where sb: "sb = sa\<lparr> http_responses := hs, http_calls := http_calls sa @ replicate n a \<rparr>"
    by blast
  from record_sent_alert_frame[of cfg now sb a]
  obtain rs' cs' tb where rec: "record_sent_alert cfg now sb a =
       sb\<lparr> sent_alerts := insert (alert_key_of a) (sent_alerts sb), ddb_responses := rs',
           ddb_calls := ddb_calls sb @ cs', tables := tb \<rparr>"
     and tb: "\<forall>t k. k \<noteq> alert_key_of a \<longrightarrow> tb t k = tables sb t k"
    by blast
  show "sent_alerts s' = insert (alert_key_of a) (sent_alerts s)"
    unfolding s' rec by (simp add: sb sa)
  show "\<forall>t k. k \<noteq> alert_key_of a \<longrightarrow> tables s' t k = tables s t k"
    using tb unfolding s' rec by (simp add: sb sa)
  show "alert_executor s' = alert_executor s"
    unfolding s' rec by (simp add: sb sa)
qed

text \<open>After a successful dispatch with a store that answers, the durable record is there.\<close>

lemma send_alert_with_dedup_writes_record:
  assumes sent: "send_alert_with_dedup cfg now s a = (s', True)"
    and quiet: "ddb_responses s = []"
  shows "tables s' (ddb_sent_alerts_table cfg) (alert_key_of a) =
           Some (SentAlertItem (alert_key_of a) (account_id a) (distribution_id a) (metric a)
                   (alert_severity a) (current_value a) (history_value a) (timestamp a)
                   (int_timestamp now + sent_alerts_ttl cfg))"
proof -
  obtain sa d where dup: "is_duplicate_alert cfg s a = (sa, d)"
    by (cases "is_duplicate_alert cfg s a")
  with sent have nd: "\<not> d"
    by (auto simp: send_alert_with_dedup_def)
  obtain sb ok where snd: "send_alert cfg sa a = (sb, ok)"
    by (cases "send_alert cfg sa a")
  with sent dup nd have s': "s' = record_sent_alert cfg now sb a"
    by (auto simp: send_alert_with_dedup_def split: if_splits bool.splits)
  have "ddb_responses sa = []"
    using dup quiet nd
    by (auto simp: is_duplicate_alert_def Let_def get_item_with_retry_ok
          split: if_splits option.splits)
  moreover from send_alert_frame[OF snd]
  have "ddb_responses sb = ddb_responses sa"
    by auto
  ultimately have "ddb_responses sb = []"
    by simp
  then show ?thesis
    by (simp add: s' record_sent_alert_def Let_def put_item_with_retry_ok)
qed

text \<open>
  Claim C5 (hourly alert deduplication). Take two alerts for the same account,
  distribution and metric.
  \<^item> If their timestamps fall in the same clock hour: of two attempts made one after the
    other at most one is dispatched; once the first has been sent, its key is in the
    in-process set and nothing at all is done for the second; and, the store answering,
    the send has written the durable record of the first, so that any process that works
    on these tables, whatever its own in-process set, suppresses the second as well,
    without a request to the sink.
  \<^item> If their timestamps are valid and fall in different clock hours, the keys differ; the
    record of the first does not suppress the second, which is dispatched when no record
    of its own exists, the sink is configured and it answers.
\<close>

theorem hourly_alert_deduplication:
  "account_id a1 = account_id a2 \<and> distribution_id a1 = distribution_id a2
   \<and> metric a1 = metric a2
   \<longrightarrow>
   (floor_to_hour (timestamp a1) = floor_to_hour (timestamp a2) \<longrightarrow>
      (send_alert_with_dedup cfg now1 s a1 = (s1, r1)
         \<and> send_alert_with_dedup cfg now2 s1 a2 = (s2, r2) \<longrightarrow> \<not> (r1 \<and> r2))
    \<and> (send_alert_with_dedup cfg now1 s a1 = (s1, True) \<longrightarrow>
          alert_key_of a1 \<in> sent_alerts s1
          \<and> send_alert_with_dedup cfg now2 s1 a2 = (s1, False))
    \<and> (send_alert_with_dedup cfg now1 s a1 = (s1, True) \<and> ddb_responses s = [] \<longrightarrow>
          tables s1 (ddb_sent_alerts_table cfg) (alert_key_of a1) =
            Some (SentAlertItem (alert_key_of a1) (account_id a1) (distribution_id a1)
                    (metric a1) (alert_severity a1) (current_value a1) (history_value a1)
                    (timestamp a1) (int_timestamp now1 + sent_alerts_ttl cfg))
          \<and> (\<forall>p. tables p = tables s1 \<and> ddb_responses p = [] \<longrightarrow>
                 snd (send_alert_with_dedup cfg now2 p a2) = False
                 \<and> http_calls (fst (send_alert_with_dedup cfg now2 p a2)) = http_calls p)))
   \<and> (floor_to_hour (timestamp a1) \<noteq> floor_to_hour (timestamp a2)
       \<and> valid_datetime (timestamp a1) \<and> valid_datetime (timestamp a2)
       \<and> send_alert_with_dedup cfg now1 s a1 = (s1, True)
       \<and> alert_key_of a2 \<notin> sent_alerts s
       \<and> tables s (ddb_sent_alerts_table cfg) (alert_key_of a2) = None
       \<and> telegram_bot_token cfg \<noteq> [] \<and> telegram_chat_id cfg \<noteq> []
       \<and> http_responses s1 = []
      \<longrightarrow> alert_key_of a2 \<noteq> alert_key_of a1
          \<and> (\<exists>s2. send_alert_with_dedup cfg now2 s1 a2 = (s2, True)
                   \<and> http_calls s2 = http_calls s1 @ [a2]))"
proof (intro impI conjI allI; (elim conjE)?)
  assume same: "account_id a1 = account_id a2" "distribution_id a1 = distribution_id a2"
      "metric a1 = metric a2"
    and hour: "floor_to_hour (timestamp a1) = floor_to_hour (timestamp a2)"
    and first: "send_alert_with_dedup cfg now1 s a1 = (s1, True)"
  have key: "alert_key_of a2 = alert_key_of a1"
    using alert_key_same_hour[OF same hour] by simp
  show rec: "alert_key_of a1 \<in> sent_alerts s1"
    using send_alert_with_dedup_success(1)[OF first] by simp
  then show "send_alert_with_dedup cfg now2 s1 a2 = (s1, False)"
    using key by (simp add: send_alert_with_dedup_recorded)
next
  assume same: "account_id a1 = account_id a2" "distribution_id a1 = distribution_id a2"
      "metric a1 = metric a2"
    and hour: "floor_to_hour (timestamp a1) = floor_to_hour (timestamp a2)"
    and first: "send_alert_with_dedup cfg now1 s a1 = (s1, r1)"
    and second: "send_alert_with_dedup cfg now2 s1 a2 = (s2, r2)"
  have key: "alert_key_of a2 = alert_key_of a1"
    using alert_key_same_hour[OF same hour] by simp
  show "\<not> (r1 \<and> r2)"
  proof
    assume both: "r1 \<and> r2"
    with first have "alert_key_of a2 \<in> sent_alerts s1"
      using send_alert_with_dedup_success(1)[of cfg now1 s a1 s1] key by simp
    then have "send_alert_with_dedup cfg now2 s1 a2 = (s1, False)"
      by (rule send_alert_with_dedup_recorded)
    with second both show False by simp
  qed
next
  assume same: "account_id a1 = account_id a2" "distribution_id a1 = distribution_id a2"
      "metric a1 = metric a2"
    and hour: "floor_to_hour (timestamp a1) = floor_to_hour (timestamp a2)"
    and first: "send_alert_with_dedup cfg now1 s a1 = (s1, True)"
    and quiet: "ddb_responses s = []"
  show "tables s1 (ddb_sent_alerts_table cfg) (alert_key_of a1) =
            Some (SentAlertItem (alert_key_of a1) (account_id a1) (distribution_id a1)
                    (metric a1) (alert_severity a1) (current_value a1) (history_value a1)
                    (timestamp a1) (int_timestamp now1 + sent_alerts_ttl cfg))"
    using first quiet by (rule send_alert_with_dedup_writes_record)
next
  fix p :: system
  assume same: "account_id a1 = account_id a2" "distribution_id a1 = distribution_id a2"
      "metric a1 = metric a2"
    and hour: "floor_to_hour (timestamp a1) = floor_to_hour (timestamp a2)"
    and first: "send_alert_with_dedup cfg now1 s a1 = (s1, True)"
    and quiet: "ddb_responses s = []"
    and other: "tables p = tables s1" "ddb_responses p = []"
  have key: "alert_key_of a2 = alert_key_of a1"
    using alert_key_same_hour[OF same hour] by simp
  have durable: "tables p (ddb_sent_alerts_table cfg) (alert_key_of a2) =
            Some (SentAlertItem (alert_key_of a1) (account_id a1) (distribution_id a1)
                    (metric a1) (alert_severity a1) (current_value a1) (history_value a1)
                    (timestamp a1) (int_timestamp now1 + sent_alerts_ttl cfg))"
    using send_alert_with_dedup_writes_record[OF first quiet] other(1) key by simp
  have "snd (send_alert_with_dedup cfg now2 p a2) = False
          \<and> http_calls (fst (send_alert_with_dedup cfg now2 p a2)) = http_calls p"
  proof (cases "alert_key_of a2 \<in> sent_alerts p")
    case True
    then show ?thesis
      by (simp add: send_alert_with_dedup_recorded)
  next
    case False
    then show ?thesis
      using send_alert_with_dedup_durable[OF False other(2) durable] by simp
  qed
  then show "snd (send_alert_with_dedup cfg now2 p a2) = False"
    and "http_calls (fst (send_alert_with_dedup cfg now2 p a2)) = http_calls p"
    by simp_all
next
  assume same: "account_id a1 = account_id a2" "distribution_id a1 = distribution_id a2"
      "metric a1 = metric a2"
    and hour: "floor_to_hour (timestamp a1) \<noteq> floor_to_hour (timestamp a2)"
    and valid: "valid_datetime (timestamp a1)" "valid_datetime (timestamp a2)"
  show "alert_key_of a2 \<noteq> alert_key_of a1"
    using alert_key_other_hour[OF same valid hour] by simp
next
  assume same: "account_id a1 = account_id a2" "distribution_id a1 = distribution_id a2"
      "metric a1 = metric a2"
    and hour: "floor_to_hour (timestamp a1) \<noteq> floor_to_hour (timestamp a2)"
    and valid: "valid_datetime (timestamp a1)" "valid_datetime (timestamp a2)"
    and first: "send_alert_with_dedup cfg now1 s a1 = (s1, True)"
    and fresh: "alert_key_of a2 \<notin> sent_alerts s"
      "tables s (ddb_sent_alerts_table cfg) (alert_key_of a2) = None"
    and sink: "telegram_bot_token cfg \<noteq> []" "telegram_chat_id cfg \<noteq> []"
      "http_responses s1 = []"
  have key: "alert_key_of a2 \<noteq> alert_key_of a1"
    using alert_key_other_hour[OF same valid hour] by simp
  have fresh1: "alert_key_of a2 \<notin> sent_alerts s1"
      "tables s1 (ddb_sent_alerts_table cfg) (alert_key_of a2) = None"
    using send_alert_with_dedup_success(1,2)[OF first] key fresh by simp_all
  obtain sa d where dup: "is_duplicate_alert cfg s1 a2 = (sa, d)"
    by (cases "is_duplicate_alert cfg s1 a2")
  from is_duplicate_alert_frame[OF dup] fresh1
  obtain rs cs where nd: "\<not> d" and sa: "sa = s1\<lparr> ddb_responses := rs, ddb_calls := ddb_calls s1 @ cs \<rparr>"
    by auto
  have snd: "send_alert cfg sa a2 = (sa\<lparr> http_calls := http_calls sa @ [a2] \<rparr>, True)"
    using sink by (intro send_alert_ok) (simp_all add: sa)
  let ?sb = "sa\<lparr> http_calls := http_calls sa @ [a2] \<rparr>"
  have res: "send_alert_with_dedup cfg now2 s1 a2 = (record_sent_alert cfg now2 ?sb a2, True)"
    using dup nd snd by (simp add: send_alert_with_dedup_def)
  from record_sent_alert_frame[of cfg now2 ?sb a2]
  have "http_calls (record_sent_alert cfg now2 ?sb a2) = http_calls ?sb"
    by auto
  then have "http_calls (record_sent_alert cfg now2 ?sb a2) = http_calls s1 @ [a2]"
    by (simp add: sa)
  with res show "\<exists>s2. send_alert_with_dedup cfg now2 s1 a2 = (s2, True)
                   \<and> http_calls s2 = http_calls s1 @ [a2]"
    by blast
qed

lemmas alert_eval = send_alert_with_dedup_def is_duplicate_alert_def send_alert_def
  send_alert_loop.simps record_sent_alert_def put_item_with_retry_def put_item_loop.simps
  get_item_with_retry_def get_item_loop.simps telegram_config_def default_config_def
  empty_system_def Let_def

text \<open>
  An alert of 10:05 is sent from an empty system. A second one of 10:48 is then dropped,
  by the same process and by a fresh process that shares only the tables; one of 11:02
  is sent.
\<close>

theorem hourly_alert_deduplication_witness:
  "snd (send_alert_with_dedup telegram_config (at_time 10 6) empty_system
          (example_alert (at_time 10 5))) = True
   \<and> send_alert_with_dedup telegram_config (at_time 10 50)
        (fst (send_alert_with_dedup telegram_config (at_time 10 6) empty_system
                (example_alert (at_time 10 5))))
        (example_alert (at_time 10 48))
       = (fst (send_alert_with_dedup telegram_config (at_time 10 6) empty_system
                 (example_alert (at_time 10 5))), False)
   \<and> (\<exists>s2. send_alert_with_dedup telegram_config (at_time 11 3)
               (fst (send_alert_with_dedup telegram_config (at_time 10 6) empty_system
                       (example_alert (at_time 10 5))))
               (example_alert (at_time 11 2)) = (s2, True)
            \<and> http_calls s2 = [example_alert (at_time 10 5), example_alert (at_time 11 2)])
   \<and> tables (fst (send_alert_with_dedup telegram_config (at_time 10 6) empty_system
                     (example_alert (at_time 10 5))))
         ''CF_Sent_Alerts'' (alert_key_of (example_alert (at_time 10 5)))
       = Some (SentAlertItem (alert_key_of (example_alert (at_time 10 5))) ''111'' ''E1''
                 ''Requests'' ''Critical'' (Finite 3000) (Finite 500) (at_time 10 5)
                 (int_timestamp (at_time 10 6) + 86400))
   \<and> snd (send_alert_with_dedup telegram_config (at_time 10 50)
            (empty_system \<lparr> tables :=
               tables (fst (send_alert_with_dedup telegram_config (at_time 10 6) empty_system
                              (example_alert (at_time 10 5)))) \<rparr>)
            (example_alert (at_time 10 48))) = False
   \<and> http_calls (fst (send_alert_with_dedup telegram_config (at_time 10 50)
            (empty_system \<lparr> tables :=
               tables (fst (send_alert_with_dedup telegram_config (at_time 10 6) empty_system
                              (example_alert (at_time 10 5)))) \<rparr>)
            (example_alert (at_time 10 48)))) = []"
proof -
  let ?a1 = "example_alert (at_time 10 5)"
  let ?s1 = "fst (send_alert_with_dedup telegram_config (at_time 10 6) empty_system ?a1)"
  let ?p = "empty_system \<lparr> tables := tables ?s1 \<rparr>"
  have first: "send_alert_with_dedup telegram_config (at_time 10 6) empty_system ?a1 = (?s1, True)"
    by (simp add: alert_eval)
  have s1: "http_responses ?s1 = []" "http_calls ?s1 = [?a1]"
    by (simp_all add: alert_eval)
  have cfg: "telegram_bot_token telegram_config \<noteq> []" "telegram_chat_id telegram_config \<noteq> []"
      "ddb_sent_alerts_table telegram_config = ''CF_Sent_Alerts''"
      "sent_alerts_ttl telegram_config = 86400"
    by (simp_all add: telegram_config_def default_config_def)
  have ent: "account_id ?a1 = account_id (example_alert t)"
      "distribution_id ?a1 = distribution_id (example_alert t)"
      "metric ?a1 = metric (example_alert t)" "timestamp (example_alert t) = t" for t
    by (simp_all add: example_alert_def)
  have fields: "account_id ?a1 = ''111''" "distribution_id ?a1 = ''E1''"
      "metric ?a1 = ''Requests''" "alert_severity ?a1 = ''Critical''"
      "current_value ?a1 = Finite 3000" "history_value ?a1 = Finite 500"
    by (simp_all add: example_alert_def)
  have hours: "floor_to_hour (at_time 10 5) = floor_to_hour (at_time 10 48)"
      "floor_to_hour (at_time 10 5) \<noteq> floor_to_hour (at_time 11 2)"
      "valid_datetime (at_time 10 5)" "valid_datetime (at_time 11 2)"
    by (simp_all add: floor_to_hour_def at_time_def valid_datetime_def)
  have empty: "sent_alerts empty_system = {}" "tables empty_system t k = None"
      "ddb_responses empty_system = []" for t k
    by (simp_all add: empty_system_def)
  have p: "tables ?p = tables ?s1" "ddb_responses ?p = []" "http_calls ?p = []"
    by (simp_all add: empty_system_def)
  note same_hour = hourly_alert_deduplication
         [where ?a1.0 = ?a1 and ?a2.0 = "example_alert (at_time 10 48)" and cfg = telegram_config
            and ?now1.0 = "at_time 10 6" and s = empty_system and ?s1.0 = ?s1
            and ?now2.0 = "at_time 10 50"]
  from same_hour first ent hours
  have same: "send_alert_with_dedup telegram_config (at_time 10 50) ?s1
                (example_alert (at_time 10 48)) = (?s1, False)"
    by simp
  from same_hour first ent hours empty(3) cfg(3,4) fields
  have stored: "tables ?s1 ''CF_Sent_Alerts'' (alert_key_of ?a1)
       = Some (SentAlertItem (alert_key_of ?a1) ''111'' ''E1''
                 ''Requests'' ''Critical'' (Finite 3000) (Finite 500) (at_time 10 5)
                 (int_timestamp (at_time 10 6) + 86400))"
    by simp
  from same_hour first ent hours empty(3)
  have all: "\<forall>p. tables p = tables ?s1 \<and> ddb_responses p = [] \<longrightarrow>
                 snd (send_alert_with_dedup telegram_config (at_time 10 50) p
                        (example_alert (at_time 10 48))) = False
                 \<and> http_calls (fst (send_alert_with_dedup telegram_config (at_time 10 50) p
                        (example_alert (at_time 10 48)))) = http_calls p"
    by simp
  from all[rule_format, of ?p] p
  have durable: "snd (send_alert_with_dedup telegram_config (at_time 10 50) ?p
                        (example_alert (at_time 10 48))) = False"
      "http_calls (fst (send_alert_with_dedup telegram_config (at_time 10 50) ?p
                        (example_alert (at_time 10 48)))) = []"
    by simp_all
  from hourly_alert_deduplication
         [where ?a1.0 = ?a1 and ?a2.0 = "example_alert (at_time 11 2)" and cfg = telegram_config
            and ?now1.0 = "at_time 10 6" and s = empty_system and ?s1.0 = ?s1
            and ?now2.0 = "at_time 11 3"]
       first ent hours empty(1,2) cfg(1,2) s1
  have other: "\<exists>s2. send_alert_with_dedup telegram_config (at_time 11 3) ?s1
                 (example_alert (at_time 11 2)) = (s2, True)
            \<and> http_calls s2 = [?a1, example_alert (at_time 11 2)]"
    by simp
  have sent: "snd (send_alert_with_dedup telegram_config (at_time 10 6) empty_system ?a1) = True"
    using first by (metis snd_conv)
  from sent same other stored durable show ?thesis
    by blast
qed

end
